theory Spec2Isabelle
  imports Main
begin

section \<open>Data model (src/types/index.ts)\<close>

text \<open>
  The rows of the hosted backend, as the TypeScript interfaces declare them. JavaScript
  strings are \<open>string\<close>; the role of an admin is kept as the string the code compares it
  with. An optional field (\<^verbatim>\<open>department_id?: string\<close>) is an \<open>option\<close>. The records
  are rows read from the backend, where an empty column is \<^verbatim>\<open>null\<close> (the generated types
  of the backend give \<^verbatim>\<open>department_id: string | null\<close> and \<^verbatim>\<open>event_id: string | null\<close>
  for an admin): \<open>None\<close> stands for that \<^verbatim>\<open>null\<close>. Where the code compares such a field
  with a value that can be \<^verbatim>\<open>undefined\<close>, the model says so at that place.
  Field names carry a prefix per interface, since record fields are global constants.
\<close>

record TeamMember =
  tm_name :: string
  tm_usn :: string
  tm_phone :: string

record Department =
  d_id :: string
  d_name :: string
  d_short_name :: string
  d_icon :: "string option"
  d_created_at :: string
  d_updated_at :: string

record CoordinatorEntry =
  ce_name :: string
  ce_phone :: "string option"

record Event =
  e_id :: string
  e_title :: string
  e_description :: "string option"
  e_department_id :: string
  e_team_size :: int
  e_venue :: "string option"
  e_conduction_venue :: "string option"
  e_date :: "string option"
  e_registration_fee :: int
  e_event_type :: string
  e_faculty_coordinators :: "CoordinatorEntry list"
  e_student_coordinators :: "CoordinatorEntry list"
  e_is_trending :: "bool option"
  e_payment_qr_url :: "string option"
  e_image_url :: "string option"
  e_qr_code_url :: "string option"
  e_created_at :: string
  e_updated_at :: string

record Registration =
  r_id :: string
  r_event_id :: string
  r_user_id :: string
  r_team_id :: string
  r_team_members :: "TeamMember list"
  r_payment_status :: string
  r_payment_method :: string
  r_created_at :: string
  r_updated_at :: string

record RegistrationWithDetails = Registration +
  event :: Event
  department :: "Department option"

record Admin =
  a_id :: string
  a_username :: string
  a_role :: string
  a_department_id :: "string option"
  a_event_id :: "string option"
  a_created_at :: string
  a_updated_at :: string

section \<open>Notifications and backend errors\<close>

datatype toast_variant = Default | Destructive

record toast =
  t_variant :: toast_variant
  t_title :: string
  t_description :: string

text \<open>The error object a backend call may return; only its message is read.\<close>

datatype api_error = ApiError (message: "string option")

text \<open>\<^verbatim>\<open>error?.message || fallback\<close>: a missing or empty message gives the fallback.\<close>

definition message_or :: "api_error \<Rightarrow> string \<Rightarrow> string" where
  "message_or err fallback =
     (case message err of None \<Rightarrow> fallback | Some m \<Rightarrow> if m = [] then fallback else m)"

text \<open>\<^verbatim>\<open>adminDetails?.role\<close>: undefined when there is no admin record.\<close>

definition role_of :: "Admin option \<Rightarrow> string option" where
  "role_of adminDetails = map_option a_role adminDetails"

section \<open>Registrations management (RegistrationsManagement in src/unnamed/part_003)\<close>

definition canModifyRegistration :: "Admin option \<Rightarrow> RegistrationWithDetails \<Rightarrow> bool" where
  "canModifyRegistration adminDetails registration =
     (if role_of adminDetails = Some ''main_admin'' then True
      else if role_of adminDetails = Some ''department_admin'' \<and>
              Some (e_department_id (event registration)) = Option.bind adminDetails a_department_id
        then True
      else if role_of adminDetails = Some ''event_admin'' \<and>
              Some (r_event_id registration) = Option.bind adminDetails a_event_id
        then True
      else False)"

text \<open>
  The hosted backend holds the tables; the application only sends requests to it. Every
  handler below takes the state of its view, which carries the backend and the
  notifications shown so far, and returns the state the handler leaves. The answer of the
  backend to a request (success, or an error object) is an argument of the handler: a
  request that the backend answers with an error writes nothing.
\<close>

record backend =
  tbl_registrations :: "Registration list"
  tbl_events :: "Event list"
  tbl_admins :: "Admin list"

record app =
  backend :: backend
  toasts :: "toast list"

definition toast_of :: "toast_variant \<Rightarrow> string \<Rightarrow> string \<Rightarrow> toast" where
  "toast_of v title description = \<lparr>t_variant = v, t_title = title, t_description = description\<rparr>"

text \<open>
  Modelled from the spec: the backend's row-level update with an equality filter
  (\<^verbatim>\<open>.from("registrations").update({ payment_status: s }).eq("id", rid)\<close>); the client
  library and the database are not part of the repository. Every row whose id is \<open>rid\<close>
  gets the one field of the request, \<open>payment_status\<close>. The specification lets a transition
  change "the status value and an updated-timestamp": \<open>touched\<close> is the timestamp that the
  backend itself puts into \<open>updated_at\<close> of an updated row, \<open>None\<close> when it keeps the old
  one. The request carries no timestamp.
\<close>

definition update_payment_status ::
  "string \<Rightarrow> string option \<Rightarrow> string \<Rightarrow> Registration list \<Rightarrow> Registration list" where
  "update_payment_status s touched rid tbl =
     map (\<lambda>row. if r_id row = rid
                then row\<lparr>r_payment_status := s,
                         r_updated_at := (case touched of None \<Rightarrow> r_updated_at row | Some t \<Rightarrow> t)\<rparr>
                else row) tbl"

record registrations_view = app +
  registrations :: "RegistrationWithDetails list"

text \<open>
  The three handlers of the source share one shape: the permission check, the update
  request, the success notification and the change of the cached row, or the error
  notification. \<open>changePaymentStatus\<close> is that shape; its arguments are the literals in
  which the three handlers differ.
\<close>

definition changePaymentStatus ::
  "string \<Rightarrow> string \<Rightarrow> string \<Rightarrow> string \<Rightarrow> string \<Rightarrow>
   Admin option \<Rightarrow> api_error option \<Rightarrow> string option \<Rightarrow> RegistrationWithDetails \<Rightarrow>
   registrations_view \<Rightarrow> registrations_view" where
  "changePaymentStatus status denied okTitle okDescription errTitle
       adminDetails resp touched registration st =
     (if \<not> canModifyRegistration adminDetails registration then
        st\<lparr>toasts := toasts st @ [toast_of Destructive ''Permission denied'' denied]\<rparr>
      else
        (case resp of
           Some err \<Rightarrow>
             st\<lparr>toasts := toasts st @
                  [toast_of Destructive errTitle (message_or err ''Please try again later.'')]\<rparr>
         | None \<Rightarrow>
             st\<lparr>backend := (backend st)\<lparr>tbl_registrations :=
                    update_payment_status status touched (r_id registration)
                      (tbl_registrations (backend st))\<rparr>,
                toasts := toasts st @ [toast_of Default okTitle okDescription],
                registrations :=
                  map (\<lambda>reg. if r_id reg = r_id registration
                             then reg\<lparr>r_payment_status := status\<rparr> else reg)
                    (registrations st)\<rparr>))"

definition handleVerifyRegistration ::
  "Admin option \<Rightarrow> api_error option \<Rightarrow> string option \<Rightarrow> RegistrationWithDetails \<Rightarrow>
   registrations_view \<Rightarrow> registrations_view" where
  "handleVerifyRegistration =
     changePaymentStatus ''Verified''
       ''You don't have permission to verify this registration.''
       ''Payment verified'' ''Registration payment has been verified successfully.''
       ''Error verifying payment''"

definition handleRejectRegistration ::
  "Admin option \<Rightarrow> api_error option \<Rightarrow> string option \<Rightarrow> RegistrationWithDetails \<Rightarrow>
   registrations_view \<Rightarrow> registrations_view" where
  "handleRejectRegistration =
     changePaymentStatus ''Rejected''
       ''You don't have permission to reject this registration.''
       ''Payment rejected'' ''Registration payment has been rejected.''
       ''Error rejecting payment''"

definition handleResetPaymentStatus ::
  "Admin option \<Rightarrow> api_error option \<Rightarrow> string option \<Rightarrow> RegistrationWithDetails \<Rightarrow>
   registrations_view \<Rightarrow> registrations_view" where
  "handleResetPaymentStatus =
     changePaymentStatus ''Pending''
       ''You don't have permission to reset this registration.''
       ''Payment status reset'' ''Registration payment status has been reset to pending.''
       ''Error resetting status''"

section \<open>Events management (src/pages/admin/events/EventsManagement.tsx)\<close>

text \<open>The values of the event form, after \<^verbatim>\<open>eventSchema\<close> has parsed them.\<close>

record EventFormValues =
  v_title :: string
  v_description :: "string option"
  v_department_id :: string
  v_venue :: "string option"
  v_conduction_venue :: "string option"
  v_date :: "string option"
  v_team_size :: int
  v_registration_fee :: int
  v_event_type :: string
  v_is_trending :: bool
  v_image_url :: "string option"
  v_qr_code_url :: "string option"
  v_payment_qr_url :: "string option"
  v_faculty_coordinators :: "CoordinatorEntry list"
  v_student_coordinators :: "CoordinatorEntry list"

text \<open>What the backend generates for a row it inserts: the id and the two timestamps.\<close>

record generated =
  g_id :: string
  g_now :: string

text \<open>A field of the request that is undefined is not sent, so an update keeps the old value.\<close>

definition sent :: "'a option \<Rightarrow> 'a option \<Rightarrow> 'a option" where
  "sent new old = (case new of None \<Rightarrow> old | Some x \<Rightarrow> Some x)"

text \<open>
  Modelled from the spec: the backend's row-level update and insert on the events table
  (\<^verbatim>\<open>.from("events").update(eventData).eq("id", currentEvent.id)\<close> and
  \<^verbatim>\<open>.from("events").insert(eventData)\<close>). \<open>eventData\<close> copies the fifteen form values,
  \<open>department_id\<close> among them. An update leaves the columns that the request does not
  carry (the id and the two timestamps) as they are; no statement below reads the
  timestamps of an event.
\<close>

definition apply_eventData :: "EventFormValues \<Rightarrow> Event \<Rightarrow> Event" where
  "apply_eventData values row =
     row\<lparr>e_title := v_title values,
         e_description := sent (v_description values) (e_description row),
         e_department_id := v_department_id values,
         e_venue := sent (v_venue values) (e_venue row),
         e_conduction_venue := sent (v_conduction_venue values) (e_conduction_venue row),
         e_date := sent (v_date values) (e_date row),
         e_team_size := v_team_size values,
         e_registration_fee := v_registration_fee values,
         e_event_type := v_event_type values,
         e_is_trending := Some (v_is_trending values),
         e_image_url := sent (v_image_url values) (e_image_url row),
         e_qr_code_url := sent (v_qr_code_url values) (e_qr_code_url row),
         e_payment_qr_url := sent (v_payment_qr_url values) (e_payment_qr_url row),
         e_faculty_coordinators := v_faculty_coordinators values,
         e_student_coordinators := v_student_coordinators values\<rparr>"

definition update_event :: "EventFormValues \<Rightarrow> string \<Rightarrow> Event list \<Rightarrow> Event list" where
  "update_event values eid tbl =
     map (\<lambda>row. if e_id row = eid then apply_eventData values row else row) tbl"

definition insert_event :: "generated \<Rightarrow> EventFormValues \<Rightarrow> Event list \<Rightarrow> Event list" where
  "insert_event gen values tbl =
     tbl @ [\<lparr>e_id = g_id gen,
             e_title = v_title values,
             e_description = v_description values,
             e_department_id = v_department_id values,
             e_team_size = v_team_size values,
             e_venue = v_venue values,
             e_conduction_venue = v_conduction_venue values,
             e_date = v_date values,
             e_registration_fee = v_registration_fee values,
             e_event_type = v_event_type values,
             e_faculty_coordinators = v_faculty_coordinators values,
             e_student_coordinators = v_student_coordinators values,
             e_is_trending = Some (v_is_trending values),
             e_payment_qr_url = v_payment_qr_url values,
             e_image_url = v_image_url values,
             e_qr_code_url = v_qr_code_url values,
             e_created_at = g_now gen,
             e_updated_at = g_now gen\<rparr>]"

record events_view = app +
  events :: "Event list"
  departments :: "Department list"
  currentEvent :: "Event option"
  isDialogOpen :: bool
  isSubmitting :: bool
  isLoading :: bool

text \<open>The answers of the backend to the two queries of \<open>fetchData\<close>.\<close>

record fetch_response =
  events_result :: "api_error + Event list"
  departments_result :: "api_error + Department list"

definition fetchData :: "fetch_response \<Rightarrow> events_view \<Rightarrow> events_view" where
  "fetchData resp st =
     (let failed = toast_of Destructive ''Error fetching data'' ''Please try again later.'' in
      case events_result resp of
        Inl err \<Rightarrow> st\<lparr>toasts := toasts st @ [failed], isLoading := False\<rparr>
      | Inr eventData \<Rightarrow>
          (case departments_result resp of
             Inl err \<Rightarrow>
               st\<lparr>toasts := toasts st @ [failed], events := eventData, isLoading := False\<rparr>
           | Inr deptData \<Rightarrow>
               st\<lparr>events := eventData, departments := deptData, isLoading := False\<rparr>))"

text \<open>
  In the second guard, \<^verbatim>\<open>currentEvent?.id !== adminDetails.event_id\<close>, the left side is
  \<^verbatim>\<open>undefined\<close> when there is no current event, and the right side is a string or
  \<^verbatim>\<open>null\<close>: the two are then never identical, so an event admin is refused whenever no
  event is being edited.
\<close>

definition handleAddEdit ::
  "Admin option \<Rightarrow> EventFormValues \<Rightarrow> generated \<Rightarrow> api_error option \<Rightarrow> fetch_response \<Rightarrow>
   events_view \<Rightarrow> events_view" where
  "handleAddEdit adminDetails values gen resp fetched st =
     (if role_of adminDetails = Some ''department_admin'' \<and>
         Option.bind adminDetails a_department_id \<noteq> Some (v_department_id values)
      then
        st\<lparr>toasts := toasts st @
             [toast_of Destructive ''Permission denied''
                ''You can only manage events for your department.''],
           isSubmitting := False\<rparr>
      else if role_of adminDetails = Some ''event_admin'' \<and>
              (case currentEvent st of
                 None \<Rightarrow> True
               | Some current \<Rightarrow> Some (e_id current) \<noteq> Option.bind adminDetails a_event_id)
      then
        st\<lparr>toasts := toasts st @
             [toast_of Destructive ''Permission denied''
                ''You can only manage your assigned event.''],
           isSubmitting := False\<rparr>
      else
        (case resp of
           Some err \<Rightarrow>
             st\<lparr>toasts := toasts st @
                  [toast_of Destructive ''Error saving event''
                     (message_or err ''Please try again later.'')],
                isSubmitting := False\<rparr>
         | None \<Rightarrow>
             (case currentEvent st of
                Some current \<Rightarrow>
                  (fetchData fetched
                     (st\<lparr>backend := (backend st)\<lparr>tbl_events :=
                            update_event values (e_id current) (tbl_events (backend st))\<rparr>,
                        toasts := toasts st @
                          [toast_of Default ''Event updated''
                             ''Event has been updated successfully.'']\<rparr>))
                    \<lparr>isDialogOpen := False, currentEvent := None, isSubmitting := False\<rparr>
              | None \<Rightarrow>
                  (fetchData fetched
                     (st\<lparr>backend := (backend st)\<lparr>tbl_events :=
                            insert_event gen values (tbl_events (backend st))\<rparr>,
                        toasts := toasts st @
                          [toast_of Default ''Event created''
                             ''New event has been created successfully.'']\<rparr>))
                    \<lparr>isDialogOpen := False, currentEvent := None, isSubmitting := False\<rparr>)))"

definition handleEditEvent :: "Admin option \<Rightarrow> Event \<Rightarrow> events_view \<Rightarrow> events_view" where
  "handleEditEvent adminDetails ev st =
     (if role_of adminDetails = Some ''event_admin'' \<and>
         Some (e_id ev) \<noteq> Option.bind adminDetails a_event_id
      then
        st\<lparr>toasts := toasts st @
             [toast_of Destructive ''Permission denied''
                ''You can only edit your assigned event.'']\<rparr>
      else st\<lparr>currentEvent := Some ev, isDialogOpen := True\<rparr>)"

subsection \<open>The events page around the handlers\<close>

text \<open>
  \<open>AdminDashboard\<close> routes to the events page only when \<^verbatim>\<open>canAccessEvents\<close> holds: the
  role of the admin record (\<open>adminRole\<close> is set together with \<open>adminDetails\<close>) is one of
  the three roles.
\<close>

definition canAccessEvents :: "Admin option \<Rightarrow> bool" where
  "canAccessEvents adminDetails =
     (role_of adminDetails = Some ''main_admin'' \<or>
      role_of adminDetails = Some ''department_admin'' \<or>
      role_of adminDetails = Some ''event_admin'')"

definition canAddEvents :: "Admin option \<Rightarrow> bool" where
  "canAddEvents adminDetails = (role_of adminDetails \<noteq> Some ''event_admin'')"

definition eventSchema :: "EventFormValues \<Rightarrow> bool" where
  "eventSchema values =
     (v_title values \<noteq> [] \<and>
      v_department_id values \<noteq> [] \<and>
      1 \<le> v_team_size values \<and>
      0 \<le> v_registration_fee values \<and>
      v_event_type values \<noteq> [] \<and>
      list_all (\<lambda>c. ce_name c \<noteq> []) (v_faculty_coordinators values) \<and>
      list_all (\<lambda>c. ce_name c \<noteq> []) (v_student_coordinators values))"

text \<open>
  The values that the form submits, given what the user entered (\<open>input\<close>). The
  department select is disabled for a department admin, so its value is the one the form
  was reset to when \<open>currentEvent\<close> was set: the department of the event being edited, or
  the admin's own department (\<^verbatim>\<open>adminDetails.department_id || ""\<close>) for a new event.
\<close>

definition submittedValues :: "Admin option \<Rightarrow> events_view \<Rightarrow> EventFormValues \<Rightarrow> EventFormValues" where
  "submittedValues adminDetails st input =
     (if role_of adminDetails = Some ''department_admin'' then
        input\<lparr>v_department_id :=
          (case currentEvent st of
             Some current \<Rightarrow> e_department_id current
           | None \<Rightarrow> (case Option.bind adminDetails a_department_id of
                        None \<Rightarrow> [] | Some d \<Rightarrow> d))\<rparr>
      else input)"

text \<open>The edit button of a row of the events table: \<^verbatim>\<open>onClick={() => handleEditEvent(event)}\<close>.\<close>

definition onEditClick :: "Admin option \<Rightarrow> Event \<Rightarrow> events_view \<Rightarrow> events_view" where
  "onEditClick adminDetails ev st =
     (if canAccessEvents adminDetails then handleEditEvent adminDetails ev st else st)"

text \<open>
  The form, \<^verbatim>\<open>onSubmit={form.handleSubmit(handleAddEdit)}\<close>, is the only caller of
  \<open>handleAddEdit\<close>. It is part of the dialog that the page renders inside
  \<^verbatim>\<open>{canAddEvents && (...)}\<close>, and the dialog shows its content when \<open>isDialogOpen\<close>
  holds. The resolver validates the submitted values against \<open>eventSchema\<close>; the handler
  runs only when they pass.
\<close>

definition onFormSubmit ::
  "Admin option \<Rightarrow> EventFormValues \<Rightarrow> generated \<Rightarrow> api_error option \<Rightarrow> fetch_response \<Rightarrow>
   events_view \<Rightarrow> events_view" where
  "onFormSubmit adminDetails input gen resp fetched st =
     (if canAccessEvents adminDetails \<and> canAddEvents adminDetails \<and> isDialogOpen st then
        (let values = submittedValues adminDetails st input
         in if eventSchema values then handleAddEdit adminDetails values gen resp fetched st
            else st)
      else st)"

text \<open>
  The authorization predicate in the words of the specification (4.2), with an event as
  the target: grant if the role is main_admin; else grant a department admin whose
  \<open>department_id\<close> is the target's; else grant an event admin whose \<open>event_id\<close> is the
  target's id; else deny. It is compared with what the page does below.
\<close>

definition spec_canModifyEvent :: "Admin option \<Rightarrow> Event \<Rightarrow> bool" where
  "spec_canModifyEvent adminDetails target =
     (case adminDetails of
        None \<Rightarrow> False
      | Some admin \<Rightarrow>
          a_role admin = ''main_admin'' \<or>
          a_role admin = ''department_admin'' \<and>
            a_department_id admin = Some (e_department_id target) \<or>
          a_role admin = ''event_admin'' \<and> a_event_id admin = Some (e_id target))"

section \<open>Admin user management (AdminUserManagement in src/pages/admin/events/EventsManagement.tsx)\<close>

text \<open>
  The state of the view: the selections of the creation dialog and the cached rows. The
  fields carry the prefix \<open>au_\<close> where the events view has a field of the same name.
\<close>

record admins_view = app +
  admins :: "Admin list"
  au_events :: "Event list"
  selectedUserId :: "string option"
  selectedUserEmail :: "string option"
  selectedRole :: string
  selectedDepartment :: string
  selectedEvent :: string
  au_isDialogOpen :: bool
  au_isLoading :: bool

definition allowedRoles :: "Admin option \<Rightarrow> string list" where
  "allowedRoles adminDetails =
     (if role_of adminDetails = Some ''main_admin''
        then [''main_admin'', ''department_admin'', ''event_admin'']
      else if role_of adminDetails = Some ''department_admin'' then [''event_admin'']
      else [])"

text \<open>
  The guards of \<open>handleCreateAdmin\<close> and the row it builds: \<open>Inl\<close> is the notification of
  the guard that stopped the call, \<open>Inr\<close> the \<open>adminData\<close> sent to the backend. \<open>now\<close> is
  \<^verbatim>\<open>new Date().toISOString()\<close>. An empty string and null are both falsy.
\<close>

definition adminData_of :: "Admin option \<Rightarrow> string \<Rightarrow> admins_view \<Rightarrow> toast + Admin" where
  "adminData_of adminDetails now st =
     (case selectedUserId st of
        None \<Rightarrow> Inl (toast_of Destructive ''Error'' ''Please select a user'')
      | Some uid \<Rightarrow>
          if uid = [] then Inl (toast_of Destructive ''Error'' ''Please select a user'')
          else if selectedRole st = ''department_admin'' \<and> selectedDepartment st = [] then
            Inl (toast_of Destructive ''Error''
                   ''Please select a department for the department admin'')
          else if selectedRole st = ''event_admin'' \<and> selectedEvent st = [] then
            Inl (toast_of Destructive ''Error'' ''Please select an event for the event admin'')
          else if selectedRole st \<notin> set (allowedRoles adminDetails) then
            Inl (toast_of Destructive ''Error''
                   ''You do not have permission to assign this role'')
          else
            Inr \<lparr>a_id = uid,
                 a_username = (case selectedUserEmail st of None \<Rightarrow> [] | Some m \<Rightarrow> m),
                 a_role = selectedRole st,
                 a_department_id =
                   (if selectedRole st = ''department_admin'' then Some (selectedDepartment st)
                    else if selectedRole st = ''event_admin'' then
                      (case find (\<lambda>e. e_id e = selectedEvent st) (au_events st) of
                         None \<Rightarrow> None
                       | Some e \<Rightarrow> if e_department_id e = [] then None
                                  else Some (e_department_id e))
                    else None),
                 a_event_id =
                   (if selectedRole st = ''event_admin'' then Some (selectedEvent st) else None),
                 a_created_at = now,
                 a_updated_at = now\<rparr>)"

text \<open>
  Modelled from the spec: the backend's insert-or-replace on the admins table
  (\<^verbatim>\<open>.from("admins").upsert(adminData, { onConflict: "id" })\<close>). The request carries every
  column, so a row with the same id is replaced as a whole.
\<close>

definition upsert_admin :: "Admin \<Rightarrow> Admin list \<Rightarrow> Admin list" where
  "upsert_admin row tbl =
     (if a_id row \<in> set (map a_id tbl)
        then map (\<lambda>r. if a_id r = a_id row then row else r) tbl
      else tbl @ [row])"

text \<open>\<open>fetchAdmins\<close>, with the answer of the backend to its query.\<close>

definition fetchAdmins :: "api_error + Admin list \<Rightarrow> admins_view \<Rightarrow> admins_view" where
  "fetchAdmins resp st =
     (case resp of
        Inl err \<Rightarrow>
          st\<lparr>toasts := toasts st @
               [toast_of Destructive ''Error'' (message_or err ''Failed to fetch admin users'')],
             au_isLoading := False\<rparr>
      | Inr rows \<Rightarrow> st\<lparr>admins := rows, au_isLoading := False\<rparr>)"

text \<open>
  \<open>fetchAdmins()\<close> is started without \<^verbatim>\<open>await\<close>: its query is answered after the
  handler has reset the dialog and shown its notification.
\<close>

definition handleCreateAdmin ::
  "Admin option \<Rightarrow> string \<Rightarrow> api_error option \<Rightarrow> api_error + Admin list \<Rightarrow>
   admins_view \<Rightarrow> admins_view" where
  "handleCreateAdmin adminDetails now resp fetched st =
     (case adminData_of adminDetails now st of
        Inl refused \<Rightarrow> st\<lparr>toasts := toasts st @ [refused]\<rparr>
      | Inr adminData \<Rightarrow>
          (case resp of
             Some err \<Rightarrow>
               st\<lparr>toasts := toasts st @
                    [toast_of Destructive ''Error''
                       (message_or err ''Failed to create admin user'')]\<rparr>
           | None \<Rightarrow>
               fetchAdmins fetched
                 (st\<lparr>backend := (backend st)\<lparr>tbl_admins :=
                        upsert_admin adminData (tbl_admins (backend st))\<rparr>,
                    toasts := toasts st @
                      [toast_of Default ''Success'' ''Admin user created successfully''],
                    selectedUserId := None,
                    selectedUserEmail := None,
                    selectedRole := ''event_admin'',
                    selectedDepartment := [],
                    selectedEvent := [],
                    au_isDialogOpen := False,
                    au_isLoading := True\<rparr>)))"

section \<open>Registration page (RegistrationPage in src/pages/Index.tsx)\<close>

record Profile =
  p_id :: string
  p_name :: string
  p_usn :: string
  p_phone :: string

record User =
  u_id :: string
  u_email :: string

record RegistrationFormValues =
  paymentMethod :: string
  teamMembers :: "TeamMember list"

definition teamMemberSchema :: "TeamMember \<Rightarrow> bool" where
  "teamMemberSchema m =
     (2 \<le> length (tm_name m) \<and>
      5 \<le> length (tm_usn m) \<and> length (tm_usn m) \<le> 10 \<and>
      10 \<le> length (tm_phone m) \<and> length (tm_phone m) \<le> 13)"

definition createRegistrationSchema :: "int \<Rightarrow> RegistrationFormValues \<Rightarrow> bool" where
  "createRegistrationSchema teamSize data =
     (1 \<le> length (paymentMethod data) \<and>
      list_all teamMemberSchema (teamMembers data) \<and>
      1 \<le> length (teamMembers data) \<and> int (length (teamMembers data)) \<le> teamSize)"

text \<open>
  The phone rule in the words of the specification, "phone 10--13 digits": between 10 and
  13 characters, each of them a digit. It is compared with \<open>teamMemberSchema\<close> below.
\<close>

definition spec_phone_digits :: "string \<Rightarrow> bool" where
  "spec_phone_digits p =
     (10 \<le> length p \<and> length p \<le> 13 \<and> list_all (\<lambda>c. c \<in> set ''0123456789'') p)"

text \<open>
  The state of the page. \<open>registrationSchema\<close> is the state that holds the schema; a schema
  is determined by the team size it was created with, so the state holds that number.
\<close>

record registration_page = app +
  rp_event :: "Event option"
  rp_user :: "User option"
  rp_profile :: "Profile option"
  registrationSchema :: int
  rp_isSubmitting :: bool
  showQRDialog :: bool
  location :: string

text \<open>
  Modelled from the spec: the backend's insert on the registrations table
  (\<^verbatim>\<open>.from("registrations").insert(registrationData)\<close>); the backend adds the id and the
  timestamps. No request of the page reads the registrations table before the insert.
\<close>

definition insert_registration :: "generated \<Rightarrow> Registration \<Rightarrow> Registration list \<Rightarrow> Registration list" where
  "insert_registration gen registrationData tbl =
     tbl @ [registrationData\<lparr>r_id := g_id gen, r_created_at := g_now gen,
                              r_updated_at := g_now gen\<rparr>]"

text \<open>\<open>uuid\<close> is the value of \<^verbatim>\<open>uuidv4()\<close>; \<^verbatim>\<open>substring(0, 8)\<close> keeps its first 8 characters.\<close>

definition onSubmit ::
  "string \<Rightarrow> generated \<Rightarrow> api_error option \<Rightarrow> RegistrationFormValues \<Rightarrow>
   registration_page \<Rightarrow> registration_page" where
  "onSubmit uuid gen resp data st =
     (case (rp_event st, rp_user st, rp_profile st) of
        (Some ev, Some user, Some profile) \<Rightarrow>
          (let teamId = ''TEAM-'' @ take 8 uuid;
               registrationData =
                 \<lparr>r_id = [], r_event_id = e_id ev, r_user_id = u_id user, r_team_id = teamId,
                  r_team_members = teamMembers data, r_payment_status = ''Pending'',
                  r_payment_method = paymentMethod data, r_created_at = [], r_updated_at = []\<rparr>
           in case resp of
                Some err \<Rightarrow>
                  st\<lparr>toasts := toasts st @
                       [toast_of Destructive ''Registration failed''
                          ''There was an error processing your registration.''],
                     rp_isSubmitting := False\<rparr>
              | None \<Rightarrow>
                  (let st' = st\<lparr>backend := (backend st)\<lparr>tbl_registrations :=
                                   insert_registration gen registrationData
                                     (tbl_registrations (backend st))\<rparr>,
                               toasts := toasts st @
                                 [toast_of Default ''Registration successful!''
                                    ''Your team has been registered for the event.''],
                               rp_isSubmitting := False\<rparr>
                   in if paymentMethod data = ''QR Code'' then st'\<lparr>showQRDialog := True\<rparr>
                      else st'\<lparr>location := ''/registrations''\<rparr>))
      | _ \<Rightarrow> st)"

text \<open>
  \<^verbatim>\<open>form.handleSubmit(onSubmit)\<close>: the resolver validates the form values against the
  schema of the state; \<open>onSubmit\<close> runs only when they pass, otherwise the errors stay in
  the form and no request is made.
\<close>

definition handleSubmit ::
  "string \<Rightarrow> generated \<Rightarrow> api_error option \<Rightarrow> RegistrationFormValues \<Rightarrow>
   registration_page \<Rightarrow> registration_page" where
  "handleSubmit uuid gen resp data st =
     (if createRegistrationSchema (registrationSchema st) data then onSubmit uuid gen resp data st
      else st)"

text \<open>
  \<open>fetchEventData\<close>: the event of the page is loaded and the schema is recreated with the
  team size of that event. \<open>.single()\<close> answers with a row or with an error; the department
  is then looked up for display only, and a failure of either query is logged.
\<close>

definition fetchEventData :: "api_error + Event \<Rightarrow> registration_page \<Rightarrow> registration_page" where
  "fetchEventData resp st =
     (case resp of
        Inl err \<Rightarrow> st
      | Inr eventData \<Rightarrow> st\<lparr>rp_event := Some eventData, registrationSchema := e_team_size eventData\<rparr>)"

section \<open>Live counter (src/components/LiveCounter.tsx)\<close>

record live_counter = app +
  registrationCount :: "nat option"
  loading :: bool

text \<open>
  Modelled from the spec: the backend's exact count query with an equality filter
  (\<^verbatim>\<open>.select('*', { count: 'exact', head: true }).eq('payment_status', s)\<close>).
\<close>

definition count_payment_status :: "string \<Rightarrow> Registration list \<Rightarrow> nat option" where
  "count_payment_status s tbl = Some (length (filter (\<lambda>row. r_payment_status row = s) tbl))"

text \<open>\<^verbatim>\<open>regCount || 0\<close>: null and 0 both give 0.\<close>

definition or_zero :: "nat option \<Rightarrow> nat" where
  "or_zero c = (case c of None \<Rightarrow> 0 | Some n \<Rightarrow> n)"

definition fetchStats :: "api_error option \<Rightarrow> live_counter \<Rightarrow> live_counter" where
  "fetchStats regError st =
     (case regError of
        Some err \<Rightarrow> st\<lparr>loading := False\<rparr>
      | None \<Rightarrow>
          st\<lparr>registrationCount :=
               Some (or_zero (count_payment_status ''Verified'' (tbl_registrations (backend st)))),
             loading := False\<rparr>)"

section \<open>Example rows and states\<close>

text \<open>
  One department \<open>D1\<close> with one event \<open>E1\<close> of team size 2, one pending registration \<open>R1\<close>
  for it, and one admin of each role. The theorems below are instantiated at these inputs.
\<close>

definition ex_event :: Event where
  "ex_event =
     \<lparr>e_id = ''E1'', e_title = ''Hackathon'', e_description = None, e_department_id = ''D1'',
      e_team_size = 2, e_venue = None, e_conduction_venue = None, e_date = None,
      e_registration_fee = 100, e_event_type = ''Technical'', e_faculty_coordinators = [],
      e_student_coordinators = [], e_is_trending = Some False, e_payment_qr_url = None,
      e_image_url = None, e_qr_code_url = None, e_created_at = ''2025-04-01'',
      e_updated_at = ''2025-04-01''\<rparr>"

definition ex_member :: TeamMember where
  "ex_member = \<lparr>tm_name = ''Asha'', tm_usn = ''1AB21CS001'', tm_phone = ''+919876543210''\<rparr>"

definition ex_row :: Registration where
  "ex_row =
     \<lparr>r_id = ''R1'', r_event_id = ''E1'', r_user_id = ''U1'', r_team_id = ''TEAM-0a1b2c3d'',
      r_team_members = [ex_member], r_payment_status = ''Pending'', r_payment_method = ''Cash'',
      r_created_at = ''2025-04-02'', r_updated_at = ''2025-04-02''\<rparr>"

definition ex_registration :: RegistrationWithDetails where
  "ex_registration =
     \<lparr>r_id = ''R1'', r_event_id = ''E1'', r_user_id = ''U1'', r_team_id = ''TEAM-0a1b2c3d'',
      r_team_members = [ex_member], r_payment_status = ''Pending'', r_payment_method = ''Cash'',
      r_created_at = ''2025-04-02'', r_updated_at = ''2025-04-02'',
      event = ex_event, department = None\<rparr>"

definition ex_main_admin :: Admin where
  "ex_main_admin =
     \<lparr>a_id = ''A0'', a_username = ''main@example.org'', a_role = ''main_admin'',
      a_department_id = None, a_event_id = None, a_created_at = ''2025-03-01'',
      a_updated_at = ''2025-03-01''\<rparr>"

definition ex_department_admin :: Admin where
  "ex_department_admin =
     \<lparr>a_id = ''A1'', a_username = ''dept@example.org'', a_role = ''department_admin'',
      a_department_id = Some ''D1'', a_event_id = None, a_created_at = ''2025-03-01'',
      a_updated_at = ''2025-03-01''\<rparr>"

definition ex_event_admin :: Admin where
  "ex_event_admin =
     \<lparr>a_id = ''A2'', a_username = ''event@example.org'', a_role = ''event_admin'',
      a_department_id = Some ''D1'', a_event_id = Some ''E1'', a_created_at = ''2025-03-01'',
      a_updated_at = ''2025-03-01''\<rparr>"

text \<open>An event admin assigned to another event, \<open>E2\<close>.\<close>

definition ex_other_event_admin :: Admin where
  "ex_other_event_admin =
     \<lparr>a_id = ''A3'', a_username = ''other@example.org'', a_role = ''event_admin'',
      a_department_id = Some ''D1'', a_event_id = Some ''E2'', a_created_at = ''2025-03-01'',
      a_updated_at = ''2025-03-01''\<rparr>"

text \<open>The admin of another department, \<open>D9\<close>.\<close>

definition ex_other_department_admin :: Admin where
  "ex_other_department_admin =
     \<lparr>a_id = ''A4'', a_username = ''dept9@example.org'', a_role = ''department_admin'',
      a_department_id = Some ''D9'', a_event_id = None, a_created_at = ''2025-03-01'',
      a_updated_at = ''2025-03-01''\<rparr>"

definition ex_backend :: backend where
  "ex_backend =
     \<lparr>tbl_registrations = [ex_row], tbl_events = [ex_event],
      tbl_admins = [ex_main_admin, ex_department_admin, ex_event_admin]\<rparr>"

definition ex_registrations_view :: registrations_view where
  "ex_registrations_view =
     \<lparr>backend = ex_backend, toasts = [], registrations = [ex_registration]\<rparr>"

text \<open>
  The registrations view after the main admin has verified \<open>R1\<close>, on a backend that stamps
  the row it updates.
\<close>

definition ex_verified_view :: registrations_view where
  "ex_verified_view =
     handleVerifyRegistration (Some ex_main_admin) None (Some ''2025-04-04'') ex_registration
       ex_registrations_view"

text \<open>
  What a user enters in the edit form of \<open>E1\<close>, with department \<open>D2\<close> selected, and the
  events page showing \<open>E1\<close> with the dialog closed.
\<close>

definition ex_values :: EventFormValues where
  "ex_values =
     \<lparr>v_title = ''Hackathon'', v_description = Some [], v_department_id = ''D2'',
      v_venue = Some [], v_conduction_venue = Some [], v_date = Some [], v_team_size = 2,
      v_registration_fee = 100, v_event_type = ''Technical'', v_is_trending = False,
      v_image_url = Some [], v_qr_code_url = Some [], v_payment_qr_url = Some [],
      v_faculty_coordinators = [], v_student_coordinators = []\<rparr>"

definition ex_events_view :: events_view where
  "ex_events_view =
     \<lparr>backend = ex_backend, toasts = [], events = [ex_event], departments = [],
      currentEvent = None, isDialogOpen = False, isSubmitting = False,
      isLoading = False\<rparr>"

definition ex_generated :: generated where
  "ex_generated = \<lparr>g_id = ''N1'', g_now = ''2025-04-03''\<rparr>"

definition ex_fetched :: fetch_response where
  "ex_fetched = \<lparr>events_result = Inr [], departments_result = Inr []\<rparr>"

text \<open>The creation dialog of a department admin, with user \<open>U9\<close> and event \<open>E1\<close> selected.\<close>

definition ex_admins_view :: admins_view where
  "ex_admins_view =
     \<lparr>backend = ex_backend, toasts = [], admins = [], au_events = [ex_event],
      selectedUserId = Some ''U9'', selectedUserEmail = Some ''new@example.org'',
      selectedRole = ''event_admin'', selectedDepartment = [], selectedEvent = ''E1'',
      au_isDialogOpen = True, au_isLoading = False\<rparr>"

text \<open>
  The same dialog opened by the main admin with department \<open>D1\<close> selected, in a view that
  loaded its events while \<open>E1\<close> was in \<open>D1\<close>; the stored event has since moved to \<open>D2\<close>.
\<close>

definition ex_stale_admins_view :: admins_view where
  "ex_stale_admins_view =
     \<lparr>backend = ex_backend\<lparr>tbl_events := [ex_event\<lparr>e_department_id := ''D2''\<rparr>]\<rparr>,
      toasts = [], admins = [], au_events = [ex_event],
      selectedUserId = Some ''U9'', selectedUserEmail = Some ''new@example.org'',
      selectedRole = ''event_admin'', selectedDepartment = ''D1'', selectedEvent = ''E1'',
      au_isDialogOpen = True, au_isLoading = False\<rparr>"

text \<open>
  The creation dialog filled in for role \<open>r\<close>, on an empty backend: a department is
  selected for a department admin and an event for an event admin, as the dialog offers.
\<close>

definition request_for :: "string \<Rightarrow> admins_view" where
  "request_for r =
     \<lparr>backend = \<lparr>tbl_registrations = [], tbl_events = [], tbl_admins = []\<rparr>, toasts = [],
      admins = [], au_events = [ex_event],
      selectedUserId = Some ''U9'', selectedUserEmail = Some ''new@example.org'',
      selectedRole = r,
      selectedDepartment = (if r = ''department_admin'' then ''D1'' else []),
      selectedEvent = (if r = ''event_admin'' then ''E1'' else []),
      au_isDialogOpen = True, au_isLoading = False\<rparr>"

text \<open>The registration page of user \<open>U1\<close> after the event \<open>E1\<close> has been loaded.\<close>

definition ex_registration_page :: registration_page where
  "ex_registration_page =
     \<lparr>backend = ex_backend, toasts = [], rp_event = Some ex_event,
      rp_user = Some \<lparr>u_id = ''U1'', u_email = ''asha@example.org''\<rparr>,
      rp_profile = Some \<lparr>p_id = ''U1'', p_name = ''Asha'', p_usn = ''1AB21CS001'',
                          p_phone = ''+919876543210''\<rparr>,
      registrationSchema = 2, rp_isSubmitting = False, showQRDialog = False,
      location = ''/register/E1''\<rparr>"

definition ex_form :: RegistrationFormValues where
  "ex_form = \<lparr>paymentMethod = ''Cash'', teamMembers = [ex_member]\<rparr>"

text \<open>Three members for the event of team size 2, and a member whose phone has no digit.\<close>

definition ex_form_of_three :: RegistrationFormValues where
  "ex_form_of_three = \<lparr>paymentMethod = ''Cash'', teamMembers = [ex_member, ex_member, ex_member]\<rparr>"

definition ex_worded_member :: TeamMember where
  "ex_worded_member = \<lparr>tm_name = ''Ravi'', tm_usn = ''1AB21CS002'', tm_phone = ''abcdefghij''\<rparr>"

definition ex_worded_form :: RegistrationFormValues where
  "ex_worded_form = \<lparr>paymentMethod = ''Cash'', teamMembers = [ex_worded_member]\<rparr>"

definition ex_live_counter :: live_counter where
  "ex_live_counter =
     \<lparr>backend = ex_backend\<lparr>tbl_registrations :=
        [ex_row, ex_row\<lparr>r_id := ''R2'', r_payment_status := ''Verified''\<rparr>,
         ex_row\<lparr>r_id := ''R3'', r_payment_status := ''Rejected''\<rparr>]\<rparr>,
      toasts = [], registrationCount = None, loading = True\<rparr>"

section \<open>Authorization of registration changes\<close>

text \<open>
  C1. \<open>canModifyRegistration\<close> answers true exactly when there is an admin record whose
  role is main_admin, or whose role is department_admin with the department of the
  registration's event, or whose role is event_admin with the registration's event; with no
  admin record it answers false.
\<close>

theorem canModifyRegistration_iff:
  "canModifyRegistration adminDetails registration =
     (\<exists>a. adminDetails = Some a \<and>
        (a_role a = ''main_admin'' \<or>
         a_role a = ''department_admin'' \<and>
           a_department_id a = Some (e_department_id (event registration)) \<or>
         a_role a = ''event_admin'' \<and> a_event_id a = Some (r_event_id registration)))
   \<and> canModifyRegistration None registration = False"
  by (cases adminDetails) (auto simp: canModifyRegistration_def role_of_def)

section \<open>Status changes of a registration\<close>

lemma changePaymentStatus_denied:
  "\<not> canModifyRegistration adminDetails registration \<Longrightarrow>
   changePaymentStatus s d okT okD errT adminDetails resp touched registration st =
     st\<lparr>toasts := toasts st @ [toast_of Destructive ''Permission denied'' d]\<rparr>"
  by (simp add: changePaymentStatus_def)

lemma changePaymentStatus_done:
  "canModifyRegistration adminDetails registration \<Longrightarrow>
   changePaymentStatus s d okT okD errT adminDetails None touched registration st =
     st\<lparr>backend := (backend st)\<lparr>tbl_registrations :=
            update_payment_status s touched (r_id registration)
              (tbl_registrations (backend st))\<rparr>,
        toasts := toasts st @ [toast_of Default okT okD],
        registrations :=
          map (\<lambda>reg. if r_id reg = r_id registration then reg\<lparr>r_payment_status := s\<rparr> else reg)
            (registrations st)\<rparr>"
  by (simp add: changePaymentStatus_def)

lemma update_payment_status_frame:
  "map r_id (update_payment_status s touched rid tbl) = map r_id tbl"
  "map r_event_id (update_payment_status s touched rid tbl) = map r_event_id tbl"
  "map r_user_id (update_payment_status s touched rid tbl) = map r_user_id tbl"
  "map r_team_id (update_payment_status s touched rid tbl) = map r_team_id tbl"
  "map r_team_members (update_payment_status s touched rid tbl) = map r_team_members tbl"
  "map r_payment_method (update_payment_status s touched rid tbl) = map r_payment_method tbl"
  "map r_created_at (update_payment_status s touched rid tbl) = map r_created_at tbl"
  by (simp_all add: update_payment_status_def)

lemma update_payment_status_Nil: "update_payment_status s touched rid [] = []"
  by (simp add: update_payment_status_def)

lemma update_payment_status_Cons:
  "update_payment_status s touched rid (a # tbl) =
     (if r_id a = rid
      then a\<lparr>r_payment_status := s,
              r_updated_at := (case touched of None \<Rightarrow> r_updated_at a | Some t \<Rightarrow> t)\<rparr>
      else a) # update_payment_status s touched rid tbl"
  by (simp add: update_payment_status_def)

lemma update_payment_status_target:
  "\<forall>row \<in> set (update_payment_status s touched rid tbl).
     r_id row = rid \<longrightarrow> r_payment_status row = s"
proof (induction tbl)
  case Nil
  show ?case by (simp add: update_payment_status_def)
next
  case (Cons a tbl)
  show ?case
  proof (cases "r_id a = rid")
    case True
    with Cons show ?thesis by (simp add: update_payment_status_Cons)
  next
    case False
    with Cons show ?thesis by (simp add: update_payment_status_Cons)
  qed
qed

lemma update_payment_status_others:
  "filter (\<lambda>row. r_id row \<noteq> rid) (update_payment_status s touched rid tbl) =
     filter (\<lambda>row. r_id row \<noteq> rid) tbl"
  by (induction tbl) (simp_all add: update_payment_status_Nil update_payment_status_Cons)

lemma update_payment_status_status_same:
  "\<forall>row \<in> set tbl. r_id row = rid \<longrightarrow> r_payment_status row = s \<Longrightarrow>
   map r_payment_status (update_payment_status s touched rid tbl) = map r_payment_status tbl"
  by (induction tbl) (simp_all add: update_payment_status_Nil update_payment_status_Cons)

lemma update_payment_status_same:
  "\<forall>row \<in> set tbl. r_id row = rid \<longrightarrow> r_payment_status row = s \<Longrightarrow>
   update_payment_status s None rid tbl = tbl"
  by (induction tbl) (simp_all add: update_payment_status_Nil update_payment_status_Cons)

lemma map_status_same:
  fixes regs :: "RegistrationWithDetails list"
  shows "\<forall>reg \<in> set regs. r_id reg = rid \<longrightarrow> r_payment_status reg = s \<Longrightarrow>
   map (\<lambda>reg. if r_id reg = rid then reg\<lparr>r_payment_status := s\<rparr> else reg) regs = regs"
  by (induction regs) auto

text \<open>
  C8. When an authorized admin verifies, rejects or resets a registration and the backend
  accepts the request, every stored row with the id of that registration has the
  payment status Verified, Rejected or Pending respectively, whatever it was before, and
  no other field of the registration changes: the ids, event ids, user ids, team ids,
  team members, payment methods and creation times of the table are the same, column by
  column, rows with another id are untouched, and so are the other tables.
\<close>

theorem status_change_frame:
  assumes "canModifyRegistration adminDetails registration"
  shows "\<forall>(h, s) \<in> {(handleVerifyRegistration, ''Verified''),
                    (handleRejectRegistration, ''Rejected''),
                    (handleResetPaymentStatus, ''Pending'')}.
           (let tbl = tbl_registrations (backend st);
                st' = h adminDetails None touched registration st;
                tbl' = tbl_registrations (backend st')
            in (\<forall>row \<in> set tbl'. r_id row = r_id registration \<longrightarrow> r_payment_status row = s) \<and>
               map r_id tbl' = map r_id tbl \<and>
               map r_event_id tbl' = map r_event_id tbl \<and>
               map r_user_id tbl' = map r_user_id tbl \<and>
               map r_team_id tbl' = map r_team_id tbl \<and>
               map r_team_members tbl' = map r_team_members tbl \<and>
               map r_payment_method tbl' = map r_payment_method tbl \<and>
               map r_created_at tbl' = map r_created_at tbl \<and>
               filter (\<lambda>row. r_id row \<noteq> r_id registration) tbl' =
                 filter (\<lambda>row. r_id row \<noteq> r_id registration) tbl \<and>
               tbl_events (backend st') = tbl_events (backend st) \<and>
               tbl_admins (backend st') = tbl_admins (backend st))"
  using assms
  by (simp add: handleVerifyRegistration_def handleRejectRegistration_def
      handleResetPaymentStatus_def changePaymentStatus_done update_payment_status_frame
      update_payment_status_others update_payment_status_target Let_def)

text \<open>The main admin rejecting the pending registration \<open>R1\<close>.\<close>

theorem status_change_frame_witness:
  "canModifyRegistration (Some ex_main_admin) ex_registration \<and>
   tbl_registrations (backend
     (handleRejectRegistration (Some ex_main_admin) None None ex_registration
        ex_registrations_view))
     = [ex_row\<lparr>r_payment_status := ''Rejected''\<rparr>]"
proof -
  have can: "canModifyRegistration (Some ex_main_admin) ex_registration"
    by (simp add: canModifyRegistration_def role_of_def ex_main_admin_def)
  have run: "tbl_registrations (backend
     (handleRejectRegistration (Some ex_main_admin) None None ex_registration
        ex_registrations_view))
     = [ex_row\<lparr>r_payment_status := ''Rejected''\<rparr>]"
    unfolding handleRejectRegistration_def changePaymentStatus_done [OF can]
    by (simp add: update_payment_status_def ex_registrations_view_def ex_backend_def ex_row_def
        ex_registration_def)
  show ?thesis
    using status_change_frame [OF can, of ex_registrations_view None]
    by - (intro conjI can run)
qed

text \<open>
  C9. Verifying is idempotent. When every stored row of the registration already has the
  payment status Verified, an authorized admin who verifies it again leaves the
  registration as it was: the payment status and every other column of the table, except
  the timestamp that the backend itself maintains, are the same, and the whole backend is
  the same when the backend maintains no such timestamp. The only notification is the
  success notification, none of the error ones, and the cached rows of the view stay as
  they were when they too were already Verified.
\<close>

theorem verify_idempotent:
  assumes can: "canModifyRegistration adminDetails registration"
    and verified: "\<forall>row \<in> set (tbl_registrations (backend st)).
                     r_id row = r_id registration \<longrightarrow> r_payment_status row = ''Verified''"
  shows "(let tbl = tbl_registrations (backend st);
              st' = handleVerifyRegistration adminDetails None touched registration st;
              tbl' = tbl_registrations (backend st')
          in map r_payment_status tbl' = map r_payment_status tbl \<and>
             map r_id tbl' = map r_id tbl \<and>
             map r_event_id tbl' = map r_event_id tbl \<and>
             map r_user_id tbl' = map r_user_id tbl \<and>
             map r_team_id tbl' = map r_team_id tbl \<and>
             map r_team_members tbl' = map r_team_members tbl \<and>
             map r_payment_method tbl' = map r_payment_method tbl \<and>
             map r_created_at tbl' = map r_created_at tbl \<and>
             tbl_events (backend st') = tbl_events (backend st) \<and>
             tbl_admins (backend st') = tbl_admins (backend st) \<and>
             toasts st' = toasts st @ [toast_of Default ''Payment verified''
                                         ''Registration payment has been verified successfully.''] \<and>
             ((\<forall>reg \<in> set (registrations st).
                 r_id reg = r_id registration \<longrightarrow> r_payment_status reg = ''Verified'') \<longrightarrow>
              registrations st' = registrations st)) \<and>
         backend (handleVerifyRegistration adminDetails None None registration st) = backend st"
proof -
  note accepted = changePaymentStatus_done [OF can]
  have whole: "update_payment_status ''Verified'' None (r_id registration)
               (tbl_registrations (backend st)) = tbl_registrations (backend st)"
    using verified by (rule update_payment_status_same)
  have status: "map r_payment_status (update_payment_status ''Verified'' touched (r_id registration)
               (tbl_registrations (backend st))) = map r_payment_status (tbl_registrations (backend st))"
    using verified by (rule update_payment_status_status_same)
  have b: "backend (handleVerifyRegistration adminDetails None None registration st) = backend st"
    unfolding handleVerifyRegistration_def accepted
    by (simp add: whole)
  have cols: "let tbl = tbl_registrations (backend st);
              st' = handleVerifyRegistration adminDetails None touched registration st;
              tbl' = tbl_registrations (backend st')
          in map r_payment_status tbl' = map r_payment_status tbl \<and>
             map r_id tbl' = map r_id tbl \<and>
             map r_event_id tbl' = map r_event_id tbl \<and>
             map r_user_id tbl' = map r_user_id tbl \<and>
             map r_team_id tbl' = map r_team_id tbl \<and>
             map r_team_members tbl' = map r_team_members tbl \<and>
             map r_payment_method tbl' = map r_payment_method tbl \<and>
             map r_created_at tbl' = map r_created_at tbl \<and>
             tbl_events (backend st') = tbl_events (backend st) \<and>
             tbl_admins (backend st') = tbl_admins (backend st) \<and>
             toasts st' = toasts st @ [toast_of Default ''Payment verified''
                                         ''Registration payment has been verified successfully.''] \<and>
             ((\<forall>reg \<in> set (registrations st).
                 r_id reg = r_id registration \<longrightarrow> r_payment_status reg = ''Verified'') \<longrightarrow>
              registrations st' = registrations st)"
    unfolding handleVerifyRegistration_def accepted
    by (simp add: Let_def status update_payment_status_frame map_status_same)
  from cols b show ?thesis by (rule conjI)
qed

text \<open>The event admin of \<open>E1\<close> verifies \<open>R1\<close> after the main admin has done so.\<close>

theorem verify_idempotent_witness:
  "canModifyRegistration (Some ex_event_admin) ex_registration \<and>
   map r_payment_status (tbl_registrations (backend ex_verified_view)) = [''Verified''] \<and>
   map r_payment_status (tbl_registrations (backend
     (handleVerifyRegistration (Some ex_event_admin) None (Some ''2025-04-05'') ex_registration
        ex_verified_view))) = [''Verified''] \<and>
   backend (handleVerifyRegistration (Some ex_event_admin) None None ex_registration
              ex_verified_view) = backend ex_verified_view"
proof -
  have can: "canModifyRegistration (Some ex_event_admin) ex_registration"
    by (simp add: canModifyRegistration_def role_of_def ex_event_admin_def ex_registration_def)
  have can0: "canModifyRegistration (Some ex_main_admin) ex_registration"
    by (simp add: canModifyRegistration_def role_of_def ex_main_admin_def)
  have tbl: "tbl_registrations (backend ex_verified_view) =
      [ex_row\<lparr>r_payment_status := ''Verified'', r_updated_at := ''2025-04-04''\<rparr>]"
    unfolding ex_verified_view_def handleVerifyRegistration_def changePaymentStatus_done [OF can0]
    by (simp add: update_payment_status_def ex_registrations_view_def ex_backend_def ex_row_def
        ex_registration_def)
  have verified: "\<forall>row \<in> set (tbl_registrations (backend ex_verified_view)).
      r_id row = r_id ex_registration \<longrightarrow> r_payment_status row = ''Verified''"
    by (simp add: tbl)
  have before: "map r_payment_status (tbl_registrations (backend ex_verified_view)) = [''Verified'']"
    by (simp add: tbl)
  from verify_idempotent [OF can verified, of "Some ''2025-04-05''"] before
  have after: "map r_payment_status (tbl_registrations (backend
     (handleVerifyRegistration (Some ex_event_admin) None (Some ''2025-04-05'') ex_registration
        ex_verified_view))) = [''Verified'']"
    by (simp add: Let_def)
  from verify_idempotent [OF can verified, of None]
  have same: "backend (handleVerifyRegistration (Some ex_event_admin) None None ex_registration
              ex_verified_view) = backend ex_verified_view"
    by (rule conjunct2)
  from can before after same show ?thesis by blast
qed

section \<open>Denied actions\<close>

lemma backend_fetchData: "backend (fetchData resp st) = backend st"
  by (simp add: fetchData_def Let_def split: sum.splits)


lemma handleAddEdit_department_admin_denied:
  "role_of adminDetails = Some ''department_admin'' \<Longrightarrow>
   Option.bind adminDetails a_department_id \<noteq> Some (v_department_id form) \<Longrightarrow>
   handleAddEdit adminDetails form gen resp fetched st =
     st\<lparr>toasts := toasts st @
          [toast_of Destructive ''Permission denied''
             ''You can only manage events for your department.''],
        isSubmitting := False\<rparr>"
  by (simp add: handleAddEdit_def)

lemma handleEditEvent_denied:
  "role_of adminDetails = Some ''event_admin'' \<Longrightarrow>
   Some (e_id ev) \<noteq> Option.bind adminDetails a_event_id \<Longrightarrow>
   handleEditEvent adminDetails ev st =
     st\<lparr>toasts := toasts st @
          [toast_of Destructive ''Permission denied'' ''You can only edit your assigned event.'']\<rparr>"
  by (simp add: handleEditEvent_def)

lemma handleEditEvent_opened:
  "role_of adminDetails \<noteq> Some ''event_admin'' \<Longrightarrow>
   handleEditEvent adminDetails ev st = st\<lparr>currentEvent := Some ev, isDialogOpen := True\<rparr>"
  by (simp add: handleEditEvent_def)

lemma backend_onEditClick: "backend (onEditClick adminDetails ev st) = backend st"
  by (simp add: onEditClick_def handleEditEvent_def)

text \<open>An event admin is never given the form: a submission is not possible.\<close>

lemma onFormSubmit_event_admin:
  "role_of adminDetails = Some ''event_admin'' \<Longrightarrow>
   onFormSubmit adminDetails input gen resp fetched st = st"
  by (simp add: onFormSubmit_def canAddEvents_def)

text \<open>What the specification's predicate denies, for an admin who has the events page.\<close>

lemma spec_canModifyEvent_denies:
  assumes "canAccessEvents adminDetails" and "\<not> spec_canModifyEvent adminDetails ev"
  shows "role_of adminDetails = Some ''event_admin'' \<and>
           Some (e_id ev) \<noteq> Option.bind adminDetails a_event_id \<or>
         role_of adminDetails = Some ''department_admin'' \<and>
           Option.bind adminDetails a_department_id \<noteq> Some (e_department_id ev)"
  using assms
  by (cases adminDetails) (auto simp: canAccessEvents_def spec_canModifyEvent_def role_of_def)

lemma edit_by_other_event_admin:
  assumes role: "role_of adminDetails = Some ''event_admin''"
    and other: "Some (e_id ev) \<noteq> Option.bind adminDetails a_event_id"
  shows "onEditClick adminDetails ev st =
           st\<lparr>toasts := toasts st @
                [toast_of Destructive ''Permission denied''
                   ''You can only edit your assigned event.'']\<rparr>"
  using role by (simp add: onEditClick_def canAccessEvents_def handleEditEvent_denied [OF role other])

lemma edit_by_other_department_admin:
  assumes role: "role_of adminDetails = Some ''department_admin''"
    and other: "Option.bind adminDetails a_department_id \<noteq> Some (e_department_id ev)"
  shows "backend (onFormSubmit adminDetails input gen resp fetched (onEditClick adminDetails ev st)) =
           backend st"
    and "eventSchema (submittedValues adminDetails (onEditClick adminDetails ev st) input) \<Longrightarrow>
         toasts (onFormSubmit adminDetails input gen resp fetched (onEditClick adminDetails ev st)) =
           toasts st @ [toast_of Destructive ''Permission denied''
                          ''You can only manage events for your department.'']"
proof -
  let ?opened = "st\<lparr>currentEvent := Some ev, isDialogOpen := True\<rparr>"
  let ?form = "submittedValues adminDetails ?opened input"
  from role have no_event_admin: "role_of adminDetails \<noteq> Some ''event_admin''" by simp
  from role have opened: "onEditClick adminDetails ev st = ?opened"
    by (simp add: onEditClick_def canAccessEvents_def handleEditEvent_opened [OF no_event_admin])
  from role have dept: "v_department_id ?form = e_department_id ev"
    by (simp add: submittedValues_def)
  with other have guard: "Option.bind adminDetails a_department_id \<noteq> Some (v_department_id ?form)"
    by simp
  note denied = handleAddEdit_department_admin_denied [OF role guard, of gen resp fetched ?opened]
  from role have submit: "onFormSubmit adminDetails input gen resp fetched ?opened =
      (if eventSchema ?form then handleAddEdit adminDetails ?form gen resp fetched ?opened
       else ?opened)"
    by (simp add: onFormSubmit_def canAccessEvents_def canAddEvents_def Let_def)
  show "backend (onFormSubmit adminDetails input gen resp fetched (onEditClick adminDetails ev st)) =
          backend st"
    unfolding opened submit by (simp add: denied)
  show "toasts (onFormSubmit adminDetails input gen resp fetched (onEditClick adminDetails ev st)) =
          toasts st @ [toast_of Destructive ''Permission denied''
                         ''You can only manage events for your department.'']"
    if "eventSchema (submittedValues adminDetails (onEditClick adminDetails ev st) input)"
    using that unfolding opened submit by (simp add: denied)
qed

text \<open>
  C3. A denied action reports a permission error and writes nothing. When
  \<open>canModifyRegistration\<close> denies, each of the three status changes returns the state it
  was given with one more notification, the destructive "Permission denied" one: the
  backend and the cached rows are the same. For an event edit the predicate is the one
  of the specification, \<open>spec_canModifyEvent\<close>, on the admin and the event to be edited:
  when it denies, for an admin who has the events page, opening the edit and submitting
  the form with whatever input leaves the backend as it was. An event admin gets the
  "Permission denied" notification on opening the edit, and nothing else changes; a
  department admin gets it from the handler, which a submission reaches once the form
  validates (the form carries the department of the event, the select being disabled).
\<close>

theorem denied_action_reports_error_and_writes_nothing:
  "(\<not> canModifyRegistration adminDetails registration \<longrightarrow>
      (\<forall>(h, d) \<in> {(handleVerifyRegistration,
                      ''You don't have permission to verify this registration.''),
                     (handleRejectRegistration,
                      ''You don't have permission to reject this registration.''),
                     (handleResetPaymentStatus,
                      ''You don't have permission to reset this registration.'')}.
         backend (h adminDetails resp touched registration st) = backend st \<and>
         h adminDetails resp touched registration st =
           st\<lparr>toasts := toasts st @ [toast_of Destructive ''Permission denied'' d]\<rparr>)) \<and>
   (canAccessEvents adminDetails \<and> \<not> spec_canModifyEvent adminDetails ev \<longrightarrow>
      (let opened = onEditClick adminDetails ev est;
           submitted = onFormSubmit adminDetails input gen wresp fetched opened
       in backend opened = backend est \<and> backend submitted = backend est \<and>
          (role_of adminDetails = Some ''event_admin'' \<or>
           role_of adminDetails = Some ''department_admin'') \<and>
          (role_of adminDetails = Some ''event_admin'' \<longrightarrow>
             opened = est\<lparr>toasts := toasts est @
                        [toast_of Destructive ''Permission denied''
                           ''You can only edit your assigned event.'']\<rparr> \<and>
             submitted = opened) \<and>
          (role_of adminDetails = Some ''department_admin'' \<and>
           eventSchema (submittedValues adminDetails opened input) \<longrightarrow>
             toasts submitted =
               toasts est @ [toast_of Destructive ''Permission denied''
                               ''You can only manage events for your department.''])))"
proof (intro conjI impI)
  assume no: "\<not> canModifyRegistration adminDetails registration"
  show "\<forall>(h, d) \<in> {(handleVerifyRegistration,
                      ''You don't have permission to verify this registration.''),
                     (handleRejectRegistration,
                      ''You don't have permission to reject this registration.''),
                     (handleResetPaymentStatus,
                      ''You don't have permission to reset this registration.'')}.
         backend (h adminDetails resp touched registration st) = backend st \<and>
         h adminDetails resp touched registration st =
           st\<lparr>toasts := toasts st @ [toast_of Destructive ''Permission denied'' d]\<rparr>"
    by (simp add: handleVerifyRegistration_def handleRejectRegistration_def
        handleResetPaymentStatus_def changePaymentStatus_denied [OF no])
next
  assume "canAccessEvents adminDetails \<and> \<not> spec_canModifyEvent adminDetails ev"
  then have cases: "role_of adminDetails = Some ''event_admin'' \<and>
           Some (e_id ev) \<noteq> Option.bind adminDetails a_event_id \<or>
         role_of adminDetails = Some ''department_admin'' \<and>
           Option.bind adminDetails a_department_id \<noteq> Some (e_department_id ev)"
    using spec_canModifyEvent_denies by blast
  let ?opened = "onEditClick adminDetails ev est"
  let ?submitted = "onFormSubmit adminDetails input gen wresp fetched ?opened"
  have b1: "backend ?opened = backend est" by (rule backend_onEditClick)
  have b2: "backend ?submitted = backend est"
  proof -
    from cases show ?thesis
    proof
      assume "role_of adminDetails = Some ''event_admin'' \<and>
           Some (e_id ev) \<noteq> Option.bind adminDetails a_event_id"
      then show ?thesis by (simp add: onFormSubmit_event_admin b1)
    next
      assume "role_of adminDetails = Some ''department_admin'' \<and>
           Option.bind adminDetails a_department_id \<noteq> Some (e_department_id ev)"
      then show ?thesis using edit_by_other_department_admin(1) by blast
    qed
  qed
  have roles: "role_of adminDetails = Some ''event_admin'' \<or>
           role_of adminDetails = Some ''department_admin''"
    using cases by blast
  have ea: "role_of adminDetails = Some ''event_admin'' \<longrightarrow>
             ?opened = est\<lparr>toasts := toasts est @
                        [toast_of Destructive ''Permission denied''
                           ''You can only edit your assigned event.'']\<rparr> \<and>
             ?submitted = ?opened"
  proof
    assume role: "role_of adminDetails = Some ''event_admin''"
    with cases have other: "Some (e_id ev) \<noteq> Option.bind adminDetails a_event_id" by auto
    from edit_by_other_event_admin [OF role other] onFormSubmit_event_admin [OF role]
    show "?opened = est\<lparr>toasts := toasts est @
                        [toast_of Destructive ''Permission denied''
                           ''You can only edit your assigned event.'']\<rparr> \<and>
             ?submitted = ?opened"
      by simp
  qed
  have da: "role_of adminDetails = Some ''department_admin'' \<and>
           eventSchema (submittedValues adminDetails ?opened input) \<longrightarrow>
             toasts ?submitted =
               toasts est @ [toast_of Destructive ''Permission denied''
                               ''You can only manage events for your department.'']"
  proof
    assume h: "role_of adminDetails = Some ''department_admin'' \<and>
           eventSchema (submittedValues adminDetails ?opened input)"
    then have role: "role_of adminDetails = Some ''department_admin''" by simp
    with cases have other: "Option.bind adminDetails a_department_id \<noteq> Some (e_department_id ev)"
      by auto
    from h edit_by_other_department_admin(2) [OF role other]
    show "toasts ?submitted =
               toasts est @ [toast_of Destructive ''Permission denied''
                               ''You can only manage events for your department.'']"
      by blast
  qed
  from b1 b2 roles ea da
  show "let opened = onEditClick adminDetails ev est;
           submitted = onFormSubmit adminDetails input gen wresp fetched opened
       in backend opened = backend est \<and> backend submitted = backend est \<and>
          (role_of adminDetails = Some ''event_admin'' \<or>
           role_of adminDetails = Some ''department_admin'') \<and>
          (role_of adminDetails = Some ''event_admin'' \<longrightarrow>
             opened = est\<lparr>toasts := toasts est @
                        [toast_of Destructive ''Permission denied''
                           ''You can only edit your assigned event.'']\<rparr> \<and>
             submitted = opened) \<and>
          (role_of adminDetails = Some ''department_admin'' \<and>
           eventSchema (submittedValues adminDetails opened input) \<longrightarrow>
             toasts submitted =
               toasts est @ [toast_of Destructive ''Permission denied''
                               ''You can only manage events for your department.''])"
    unfolding Let_def by (intro conjI)
qed

text \<open>
  The event admin of \<open>E2\<close> tries to verify \<open>R1\<close> and to edit \<open>E1\<close>; the admin of
  department \<open>D9\<close> tries to edit \<open>E1\<close>, which is in \<open>D1\<close>.
\<close>

theorem denied_action_reports_error_and_writes_nothing_witness:
  "\<not> canModifyRegistration (Some ex_other_event_admin) ex_registration \<and>
   handleVerifyRegistration (Some ex_other_event_admin) None None ex_registration
     ex_registrations_view =
     ex_registrations_view\<lparr>toasts := toasts ex_registrations_view @
       [toast_of Destructive ''Permission denied''
          ''You don't have permission to verify this registration.'']\<rparr> \<and>
   canAccessEvents (Some ex_other_department_admin) \<and>
   \<not> spec_canModifyEvent (Some ex_other_department_admin) ex_event \<and>
   eventSchema (submittedValues (Some ex_other_department_admin)
                  (onEditClick (Some ex_other_department_admin) ex_event ex_events_view)
                  ex_values) \<and>
   backend (onFormSubmit (Some ex_other_department_admin) ex_values ex_generated None ex_fetched
              (onEditClick (Some ex_other_department_admin) ex_event ex_events_view)) =
     backend ex_events_view \<and>
   toasts (onFormSubmit (Some ex_other_department_admin) ex_values ex_generated None ex_fetched
             (onEditClick (Some ex_other_department_admin) ex_event ex_events_view)) =
     [toast_of Destructive ''Permission denied''
        ''You can only manage events for your department.'']"
proof -
  have no: "\<not> canModifyRegistration (Some ex_other_event_admin) ex_registration"
    by (simp add: canModifyRegistration_def role_of_def ex_other_event_admin_def
        ex_registration_def)
  note reg = denied_action_reports_error_and_writes_nothing
    [where adminDetails = "Some ex_other_event_admin" and registration = ex_registration
       and resp = None and touched = None and st = ex_registrations_view]
  from reg no have verify:
    "handleVerifyRegistration (Some ex_other_event_admin) None None ex_registration
       ex_registrations_view =
     ex_registrations_view\<lparr>toasts := toasts ex_registrations_view @
       [toast_of Destructive ''Permission denied''
          ''You don't have permission to verify this registration.'']\<rparr>"
    by blast
  have role: "role_of (Some ex_other_department_admin) = Some ''department_admin''"
    by (simp add: role_of_def ex_other_department_admin_def)
  have page: "canAccessEvents (Some ex_other_department_admin)"
    by (simp add: canAccessEvents_def role)
  have denied: "\<not> spec_canModifyEvent (Some ex_other_department_admin) ex_event"
    by (simp add: spec_canModifyEvent_def ex_other_department_admin_def ex_event_def)
  have valid: "eventSchema (submittedValues (Some ex_other_department_admin)
                  (onEditClick (Some ex_other_department_admin) ex_event ex_events_view)
                  ex_values)"
    by (simp add: eventSchema_def submittedValues_def onEditClick_def handleEditEvent_def
        canAccessEvents_def role ex_values_def ex_event_def)
  have none: "toasts ex_events_view = []"
    by (simp add: ex_events_view_def)
  note edit = denied_action_reports_error_and_writes_nothing
    [where adminDetails = "Some ex_other_department_admin" and ev = ex_event
       and est = ex_events_view and input = ex_values and gen = ex_generated
       and wresp = None and fetched = ex_fetched, unfolded Let_def]
  from edit page denied have b:
    "backend (onFormSubmit (Some ex_other_department_admin) ex_values ex_generated None ex_fetched
              (onEditClick (Some ex_other_department_admin) ex_event ex_events_view)) =
     backend ex_events_view"
    by blast
  from edit page denied role valid have t:
    "toasts (onFormSubmit (Some ex_other_department_admin) ex_values ex_generated None ex_fetched
             (onEditClick (Some ex_other_department_admin) ex_event ex_events_view)) =
     toasts ex_events_view @
     [toast_of Destructive ''Permission denied''
        ''You can only manage events for your department.'']"
    by blast
  from t none have t': 
    "toasts (onFormSubmit (Some ex_other_department_admin) ex_values ex_generated None ex_fetched
             (onEditClick (Some ex_other_department_admin) ex_event ex_events_view)) =
     [toast_of Destructive ''Permission denied''
        ''You can only manage events for your department.'']"
    by simp
  from no verify page denied valid b t' show ?thesis by blast
qed

section \<open>Event edits by an event admin\<close>



section \<open>Registration by a user\<close>

lemma onSubmit_accepted:
  assumes "rp_event st = Some ev" and "rp_user st = Some user" and "rp_profile st = Some profile"
  shows "backend (onSubmit uuid gen None data st) =
           (backend st)\<lparr>tbl_registrations := tbl_registrations (backend st) @
              [\<lparr>r_id = g_id gen, r_event_id = e_id ev, r_user_id = u_id user,
                r_team_id = ''TEAM-'' @ take 8 uuid, r_team_members = teamMembers data,
                r_payment_status = ''Pending'', r_payment_method = paymentMethod data,
                r_created_at = g_now gen, r_updated_at = g_now gen\<rparr>]\<rparr>"
  using assms by (simp add: onSubmit_def insert_registration_def Let_def)

lemma onSubmit_keeps_session:
  "rp_event (onSubmit uuid gen resp data st) = rp_event st \<and>
   rp_user (onSubmit uuid gen resp data st) = rp_user st \<and>
   rp_profile (onSubmit uuid gen resp data st) = rp_profile st \<and>
   registrationSchema (onSubmit uuid gen resp data st) = registrationSchema st"
  by (simp add: onSubmit_def Let_def split: option.splits)

text \<open>
  C4. A submission that passes validation and that the backend accepts stores one new
  row: its payment status is Pending, its team id is \<open>TEAM-\<close> followed by the first
  eight characters of the random identifier, and its event id, user id, team members and
  payment method are those of the page and the form. Nothing looks at the rows already
  stored: a second submission of the same user for the same event stores a second row
  with the same event id and user id.
\<close>

theorem successful_submission_row:
  assumes ev: "rp_event st = Some ev" and user: "rp_user st = Some user"
    and profile: "rp_profile st = Some profile"
    and valid: "createRegistrationSchema (registrationSchema st) data"
    and again: "createRegistrationSchema (registrationSchema st) data2"
  shows "tbl_registrations (backend (handleSubmit uuid gen None data st)) =
           tbl_registrations (backend st) @
             [\<lparr>r_id = g_id gen, r_event_id = e_id ev, r_user_id = u_id user,
               r_team_id = ''TEAM-'' @ take 8 uuid, r_team_members = teamMembers data,
               r_payment_status = ''Pending'', r_payment_method = paymentMethod data,
               r_created_at = g_now gen, r_updated_at = g_now gen\<rparr>] \<and>
         tbl_registrations (backend (handleSubmit uuid2 gen2 None data2
                                       (handleSubmit uuid gen None data st))) =
           tbl_registrations (backend st) @
             [\<lparr>r_id = g_id gen, r_event_id = e_id ev, r_user_id = u_id user,
               r_team_id = ''TEAM-'' @ take 8 uuid, r_team_members = teamMembers data,
               r_payment_status = ''Pending'', r_payment_method = paymentMethod data,
               r_created_at = g_now gen, r_updated_at = g_now gen\<rparr>,
              \<lparr>r_id = g_id gen2, r_event_id = e_id ev, r_user_id = u_id user,
               r_team_id = ''TEAM-'' @ take 8 uuid2, r_team_members = teamMembers data2,
               r_payment_status = ''Pending'', r_payment_method = paymentMethod data2,
               r_created_at = g_now gen2, r_updated_at = g_now gen2\<rparr>]"
proof -
  let ?st1 = "onSubmit uuid gen None data st"
  have first: "handleSubmit uuid gen None data st = ?st1"
    using valid by (simp add: handleSubmit_def)
  have keep: "rp_event ?st1 = Some ev" "rp_user ?st1 = Some user" "rp_profile ?st1 = Some profile"
    "registrationSchema ?st1 = registrationSchema st"
    using ev user profile by (simp_all add: onSubmit_keeps_session)
  have second: "handleSubmit uuid2 gen2 None data2 ?st1 = onSubmit uuid2 gen2 None data2 ?st1"
    using again keep(4) by (simp add: handleSubmit_def)
  show ?thesis
    unfolding first second
    by (simp add: onSubmit_accepted [OF keep(1-3)] onSubmit_accepted [OF ev user profile])
qed

text \<open>User \<open>U1\<close> registers for \<open>E1\<close>, for which the table already holds the row \<open>R1\<close> of \<open>U1\<close>.\<close>

theorem successful_submission_row_witness:
  "rp_event ex_registration_page = Some ex_event \<and>
   createRegistrationSchema (registrationSchema ex_registration_page) ex_form \<and>
   tbl_registrations (backend
     (handleSubmit ''0a1b2c3d-0000-4000-8000-000000000000'' ex_generated None ex_form
        ex_registration_page)) =
     [ex_row,
      \<lparr>r_id = ''N1'', r_event_id = ''E1'', r_user_id = ''U1'', r_team_id = ''TEAM-0a1b2c3d'',
       r_team_members = [ex_member], r_payment_status = ''Pending'', r_payment_method = ''Cash'',
       r_created_at = ''2025-04-03'', r_updated_at = ''2025-04-03''\<rparr>]"
proof -
  have ev: "rp_event ex_registration_page = Some ex_event"
    by (simp add: ex_registration_page_def)
  have user: "rp_user ex_registration_page = Some \<lparr>u_id = ''U1'', u_email = ''asha@example.org''\<rparr>"
    by (simp add: ex_registration_page_def)
  have profile: "rp_profile ex_registration_page =
      Some \<lparr>p_id = ''U1'', p_name = ''Asha'', p_usn = ''1AB21CS001'', p_phone = ''+919876543210''\<rparr>"
    by (simp add: ex_registration_page_def)
  have valid: "createRegistrationSchema (registrationSchema ex_registration_page) ex_form"
    by (simp add: createRegistrationSchema_def teamMemberSchema_def ex_registration_page_def
        ex_form_def ex_member_def)
  have tbl: "tbl_registrations (backend ex_registration_page) = [ex_row]"
    by (simp add: ex_registration_page_def ex_backend_def)
  from successful_submission_row [OF ev user profile valid valid,
      of "''0a1b2c3d-0000-4000-8000-000000000000''" ex_generated]
  have "tbl_registrations (backend
     (handleSubmit ''0a1b2c3d-0000-4000-8000-000000000000'' ex_generated None ex_form
        ex_registration_page)) =
     tbl_registrations (backend ex_registration_page) @
       [\<lparr>r_id = g_id ex_generated, r_event_id = e_id ex_event,
         r_user_id = u_id \<lparr>u_id = ''U1'', u_email = ''asha@example.org''\<rparr>,
         r_team_id = ''TEAM-'' @ take 8 ''0a1b2c3d-0000-4000-8000-000000000000'',
         r_team_members = teamMembers ex_form,
         r_payment_status = ''Pending'', r_payment_method = paymentMethod ex_form,
         r_created_at = g_now ex_generated, r_updated_at = g_now ex_generated\<rparr>]"
    by blast
  then have "tbl_registrations (backend
     (handleSubmit ''0a1b2c3d-0000-4000-8000-000000000000'' ex_generated None ex_form
        ex_registration_page)) =
     [ex_row,
      \<lparr>r_id = ''N1'', r_event_id = ''E1'', r_user_id = ''U1'', r_team_id = ''TEAM-0a1b2c3d'',
       r_team_members = [ex_member], r_payment_status = ''Pending'', r_payment_method = ''Cash'',
       r_created_at = ''2025-04-03'', r_updated_at = ''2025-04-03''\<rparr>]"
    by (simp add: tbl ex_generated_def ex_event_def ex_form_def)
  with ev valid show ?thesis by blast
qed

lemma createRegistrationSchema_bounds:
  "createRegistrationSchema teamSize data =
     (1 \<le> length (paymentMethod data) \<and>
      (\<forall>m \<in> set (teamMembers data).
         2 \<le> length (tm_name m) \<and> 5 \<le> length (tm_usn m) \<and> length (tm_usn m) \<le> 10 \<and>
         10 \<le> length (tm_phone m) \<and> length (tm_phone m) \<le> 13) \<and>
      1 \<le> length (teamMembers data) \<and> int (length (teamMembers data)) \<le> teamSize)"
  by (simp add: createRegistrationSchema_def teamMemberSchema_def list_all_iff)

text \<open>
  C5, as the code has it. The schema accepts form values only if every member has a name
  of at least 2 characters, a USN of 5 to 10 characters and a phone of 10 to 13
  characters, and the list has between 1 and \<open>teamSize\<close> members; the page creates the
  schema with the team size of the event it loaded; and a submission that violates one of
  these bounds leaves the page and the backend as they were, so nothing is sent. The
  phone is bounded in length only: nothing requires its characters to be digits.
\<close>

theorem registration_form_validation:
  "(createRegistrationSchema teamSize data \<longrightarrow>
      (\<forall>m \<in> set (teamMembers data).
         2 \<le> length (tm_name m) \<and> 5 \<le> length (tm_usn m) \<and> length (tm_usn m) \<le> 10 \<and>
         10 \<le> length (tm_phone m) \<and> length (tm_phone m) \<le> 13) \<and>
      1 \<le> length (teamMembers data) \<and> int (length (teamMembers data)) \<le> teamSize) \<and>
   (rp_event (fetchEventData (Inr ev) st0) = Some ev \<and>
    registrationSchema (fetchEventData (Inr ev) st0) = e_team_size ev) \<and>
   (\<not> ((\<forall>m \<in> set (teamMembers sub).
           2 \<le> length (tm_name m) \<and> 5 \<le> length (tm_usn m) \<and> length (tm_usn m) \<le> 10 \<and>
           10 \<le> length (tm_phone m) \<and> length (tm_phone m) \<le> 13) \<and>
        1 \<le> length (teamMembers sub) \<and>
        int (length (teamMembers sub)) \<le> registrationSchema st) \<longrightarrow>
      handleSubmit uuid gen resp sub st = st)"
proof (intro conjI impI)
  assume "createRegistrationSchema teamSize data"
  then show "\<forall>m \<in> set (teamMembers data).
         2 \<le> length (tm_name m) \<and> 5 \<le> length (tm_usn m) \<and> length (tm_usn m) \<le> 10 \<and>
         10 \<le> length (tm_phone m) \<and> length (tm_phone m) \<le> 13"
    and "1 \<le> length (teamMembers data)" and "int (length (teamMembers data)) \<le> teamSize"
    unfolding createRegistrationSchema_bounds by blast+
next
  show "rp_event (fetchEventData (Inr ev) st0) = Some ev"
    by (simp add: fetchEventData_def)
  show "registrationSchema (fetchEventData (Inr ev) st0) = e_team_size ev"
    by (simp add: fetchEventData_def)
next
  assume "\<not> ((\<forall>m \<in> set (teamMembers sub).
           2 \<le> length (tm_name m) \<and> 5 \<le> length (tm_usn m) \<and> length (tm_usn m) \<le> 10 \<and>
           10 \<le> length (tm_phone m) \<and> length (tm_phone m) \<le> 13) \<and>
        1 \<le> length (teamMembers sub) \<and>
        int (length (teamMembers sub)) \<le> registrationSchema st)"
  then have "\<not> createRegistrationSchema (registrationSchema st) sub"
    unfolding createRegistrationSchema_bounds by blast
  then show "handleSubmit uuid gen resp sub st = st"
    by (simp add: handleSubmit_def)
qed

text \<open>
  C5 as stated fails on "phone is 10--13 digits": a member whose phone is the ten letters
  \<open>abcdefghij\<close> passes the schema, and the submission is stored.
\<close>

theorem registration_form_validation_counterexample:
  "createRegistrationSchema (registrationSchema ex_registration_page) ex_worded_form \<and>
   map tm_phone (teamMembers ex_worded_form) = [''abcdefghij''] \<and>
   \<not> spec_phone_digits ''abcdefghij'' \<and>
   length (tbl_registrations (backend
     (handleSubmit ''0a1b2c3d-0000-4000-8000-000000000000'' ex_generated None ex_worded_form
        ex_registration_page))) =
     Suc (length (tbl_registrations (backend ex_registration_page)))"
  by (simp add: createRegistrationSchema_def teamMemberSchema_def spec_phone_digits_def
      handleSubmit_def onSubmit_def insert_registration_def Let_def
      ex_registration_page_def ex_worded_form_def ex_worded_member_def ex_backend_def)

text \<open>
  One member is accepted for the event of team size 2; three members are rejected and
  the page is left as it was.
\<close>

theorem registration_form_validation_witness:
  "createRegistrationSchema 2 ex_form \<and>
   int (length (teamMembers ex_form)) \<le> 2 \<and>
   registrationSchema (fetchEventData (Inr ex_event) ex_registration_page) = 2 \<and>
   length (teamMembers ex_form_of_three) = 3 \<and>
   handleSubmit ''0a1b2c3d-0000-4000-8000-000000000000'' ex_generated None ex_form_of_three
     ex_registration_page = ex_registration_page"
proof -
  note inst = registration_form_validation
    [where teamSize = 2 and data = ex_form and ev = ex_event and ?st0.0 = ex_registration_page
       and sub = ex_form_of_three and st = ex_registration_page
       and uuid = "''0a1b2c3d-0000-4000-8000-000000000000''" and gen = ex_generated and resp = None]
  have valid: "createRegistrationSchema 2 ex_form"
    by (simp add: createRegistrationSchema_def teamMemberSchema_def ex_form_def ex_member_def)
  have three: "length (teamMembers ex_form_of_three) = 3"
    by (simp add: ex_form_of_three_def)
  have size: "registrationSchema ex_registration_page = 2" "e_team_size ex_event = 2"
    by (simp_all add: ex_registration_page_def ex_event_def)
  have too_many: "\<not> int (length (teamMembers ex_form_of_three)) \<le> registrationSchema ex_registration_page"
    by (simp add: three size)
  from inst valid have a: "int (length (teamMembers ex_form)) \<le> 2" by blast
  from inst size have b: "registrationSchema (fetchEventData (Inr ex_event) ex_registration_page) = 2"
    by simp
  from inst too_many have c:
    "handleSubmit ''0a1b2c3d-0000-4000-8000-000000000000'' ex_generated None ex_form_of_three
       ex_registration_page = ex_registration_page"
    by blast
  from valid a b three c show ?thesis by blast
qed

section \<open>Creation of admin accounts\<close>

lemma backend_fetchAdmins: "backend (fetchAdmins resp st) = backend st"
  by (simp add: fetchAdmins_def split: sum.splits)

lemma handleCreateAdmin_refused:
  "adminData_of adminDetails now st = Inl refused \<Longrightarrow>
   handleCreateAdmin adminDetails now resp fetched st = st\<lparr>toasts := toasts st @ [refused]\<rparr>"
  by (simp add: handleCreateAdmin_def)

lemma handleCreateAdmin_written:
  "adminData_of adminDetails now st = Inr adminData \<Longrightarrow>
   backend (handleCreateAdmin adminDetails now None fetched st) =
     (backend st)\<lparr>tbl_admins := upsert_admin adminData (tbl_admins (backend st))\<rparr>"
  by (simp add: handleCreateAdmin_def backend_fetchAdmins)

lemma handleCreateAdmin_backend_error:
  "backend (handleCreateAdmin adminDetails now (Some err) fetched st) = backend st"
  by (simp add: handleCreateAdmin_def split: sum.splits)

lemma set_upsert_admin: "set (upsert_admin row tbl) \<subseteq> insert row (set tbl)"
  by (auto simp: upsert_admin_def)

lemma adminData_of_role:
  assumes "adminData_of adminDetails now st = Inr row"
  shows "a_role row = selectedRole st \<and> selectedRole st \<in> set (allowedRoles adminDetails)"
  using assms by (auto simp: adminData_of_def split: option.splits if_splits)

lemma adminData_of_not_allowed:
  assumes "selectedRole st \<notin> set (allowedRoles adminDetails)"
  shows "\<exists>d. adminData_of adminDetails now st = Inl (toast_of Destructive ''Error'' d)"
  using assms by (auto simp: adminData_of_def split: option.splits)

text \<open>Every row that the handler adds to the table is the \<open>adminData\<close> it built.\<close>

lemma handleCreateAdmin_new_row:
  assumes new: "row \<in> set (tbl_admins (backend (handleCreateAdmin adminDetails now resp fetched st)))"
    and old: "row \<notin> set (tbl_admins (backend st))"
  shows "adminData_of adminDetails now st = Inr row"
proof (cases "adminData_of adminDetails now st")
  case (Inl refused)
  with new old show ?thesis by (simp add: handleCreateAdmin_refused)
next
  case (Inr adminData)
  show ?thesis
  proof (cases resp)
    case (Some err)
    with new old show ?thesis by (simp add: handleCreateAdmin_backend_error)
  next
    case None
    with new Inr have "row \<in> set (upsert_admin adminData (tbl_admins (backend st)))"
      by (simp add: handleCreateAdmin_written)
    with set_upsert_admin [of adminData "tbl_admins (backend st)"] old have "row = adminData"
      by blast
    with Inr show ?thesis by simp
  qed
qed


lemma adminData_of_request_for:
  assumes "r \<in> set (allowedRoles adminDetails)"
  shows "\<exists>row. adminData_of adminDetails now (request_for r) = Inr row \<and> a_role row = r"
  using assms by (simp add: adminData_of_def request_for_def)

lemma allowedRoles_set:
  "set (allowedRoles adminDetails) =
     (if role_of adminDetails = Some ''main_admin''
        then {''main_admin'', ''department_admin'', ''event_admin''}
      else if role_of adminDetails = Some ''department_admin'' then {''event_admin''}
      else {})"
  by (simp add: allowedRoles_def)

text \<open>
  C6. The roles that a call of \<open>handleCreateAdmin\<close> can give to a row it adds to the
  admins table are exactly main_admin, department_admin and event_admin when the caller
  is a main admin, exactly event_admin when the caller is a department admin, and none
  otherwise. A call whose selected role is outside that set writes nothing: it returns
  the state it was given with one more notification, a destructive one titled "Error".
\<close>

theorem assignable_roles:
  "{r. \<exists>now resp fetched st row.
         row \<in> set (tbl_admins (backend (handleCreateAdmin adminDetails now resp fetched st))) \<and>
         row \<notin> set (tbl_admins (backend st)) \<and> a_role row = r} =
     (if role_of adminDetails = Some ''main_admin''
        then {''main_admin'', ''department_admin'', ''event_admin''}
      else if role_of adminDetails = Some ''department_admin'' then {''event_admin''}
      else {}) \<and>
   (selectedRole st \<notin> set (allowedRoles adminDetails) \<longrightarrow>
      backend (handleCreateAdmin adminDetails now resp fetched st) = backend st \<and>
      (\<exists>d. handleCreateAdmin adminDetails now resp fetched st =
             st\<lparr>toasts := toasts st @ [toast_of Destructive ''Error'' d]\<rparr>))"
proof (intro conjI impI)
  let ?assigned = "{r. \<exists>now resp fetched st row.
         row \<in> set (tbl_admins (backend (handleCreateAdmin adminDetails now resp fetched st))) \<and>
         row \<notin> set (tbl_admins (backend st)) \<and> a_role row = r}"
  have "?assigned = set (allowedRoles adminDetails)"
  proof (intro equalityI subsetI)
    fix r assume "r \<in> ?assigned"
    then obtain now resp fetched st row
      where new: "row \<in> set (tbl_admins (backend (handleCreateAdmin adminDetails now resp fetched st)))"
        and old: "row \<notin> set (tbl_admins (backend st))" and r: "a_role row = r"
      by blast
    from new old have "adminData_of adminDetails now st = Inr row"
      by (rule handleCreateAdmin_new_row)
    from adminData_of_role [OF this] r show "r \<in> set (allowedRoles adminDetails)"
      by simp
  next
    fix r assume "r \<in> set (allowedRoles adminDetails)"
    then obtain row where built: "adminData_of adminDetails [] (request_for r) = Inr row"
      and r: "a_role row = r"
      using adminData_of_request_for by blast
    have empty: "tbl_admins (backend (request_for r)) = []"
      by (simp add: request_for_def)
    have "tbl_admins (backend (handleCreateAdmin adminDetails [] None (Inr []) (request_for r))) =
        upsert_admin row (tbl_admins (backend (request_for r)))"
      by (simp only: handleCreateAdmin_written [OF built]) simp
    then have "tbl_admins (backend
        (handleCreateAdmin adminDetails [] None (Inr []) (request_for r))) = [row]"
      by (simp add: empty upsert_admin_def)
    with empty have "row \<in> set (tbl_admins (backend
          (handleCreateAdmin adminDetails [] None (Inr []) (request_for r)))) \<and>
        row \<notin> set (tbl_admins (backend (request_for r))) \<and> a_role row = r"
      using r by simp
    then show "r \<in> ?assigned" by blast
  qed
  then show "?assigned =
     (if role_of adminDetails = Some ''main_admin''
        then {''main_admin'', ''department_admin'', ''event_admin''}
      else if role_of adminDetails = Some ''department_admin'' then {''event_admin''}
      else {})"
    by (simp only: allowedRoles_set)
next
  assume "selectedRole st \<notin> set (allowedRoles adminDetails)"
  then obtain d where refused: "adminData_of adminDetails now st = Inl (toast_of Destructive ''Error'' d)"
    using adminData_of_not_allowed by blast
  show "backend (handleCreateAdmin adminDetails now resp fetched st) = backend st"
    by (simp add: handleCreateAdmin_refused [OF refused])
  show "\<exists>d. handleCreateAdmin adminDetails now resp fetched st =
             st\<lparr>toasts := toasts st @ [toast_of Destructive ''Error'' d]\<rparr>"
    using handleCreateAdmin_refused [OF refused] by blast
qed

text \<open>A department admin selects the role main_admin: nothing is written.\<close>

theorem assignable_roles_witness:
  "role_of (Some ex_department_admin) = Some ''department_admin'' \<and>
   selectedRole (request_for ''main_admin'') \<notin> set (allowedRoles (Some ex_department_admin)) \<and>
   backend (handleCreateAdmin (Some ex_department_admin) ''2025-04-03'' None (Inr [])
              (request_for ''main_admin'')) = backend (request_for ''main_admin'')"
proof -
  have role: "role_of (Some ex_department_admin) = Some ''department_admin''"
    by (simp add: role_of_def ex_department_admin_def)
  have no: "selectedRole (request_for ''main_admin'') \<notin> set (allowedRoles (Some ex_department_admin))"
    by (simp add: allowedRoles_def role request_for_def)
  from assignable_roles [of "Some ex_department_admin" "request_for ''main_admin''"
      "''2025-04-03''" None "Inr []"] no
  have "backend (handleCreateAdmin (Some ex_department_admin) ''2025-04-03'' None (Inr [])
              (request_for ''main_admin'')) = backend (request_for ''main_admin'')"
    by blast
  with role no show ?thesis by blast
qed

lemma upsert_admin_member: "row \<in> set (upsert_admin row tbl)"
  by (auto simp: upsert_admin_def)

lemma adminData_of_scoped:
  assumes "adminData_of adminDetails now st = Inr row"
  shows "(a_role row = ''department_admin'' \<longrightarrow>
            (\<exists>d. a_department_id row = Some d \<and> d \<noteq> []) \<and> a_event_id row = None) \<and>
         (a_role row = ''event_admin'' \<longrightarrow>
            a_event_id row = Some (selectedEvent st) \<and> selectedEvent st \<noteq> [] \<and>
            (\<forall>d. a_department_id row = Some d \<longrightarrow>
               (\<exists>ev. find (\<lambda>e. e_id e = selectedEvent st) (au_events st) = Some ev \<and>
                     e_department_id ev = d))) \<and>
         (a_role row = ''main_admin'' \<longrightarrow> a_department_id row = None \<and> a_event_id row = None)"
  using assms by (auto simp: adminData_of_def split: option.splits if_splits)

text \<open>
  C7, as the code has it. The row that \<open>handleCreateAdmin\<close> writes satisfies the scoping
  invariants, with the department of an event admin taken from the view. A department
  admin row has a department (a non-empty id) and no event. An event admin row has an
  event, the selected one, and its department, when it has one, is the department that
  the event list of the view holds for that event (the first event of the list with the
  selected id); it is the department of the stored event when the list of the view and
  the events table agree on that event. A main admin row has neither a department nor an
  event.
\<close>

theorem written_admin_row_scoped:
  assumes "adminData_of adminDetails now st = Inr row"
  shows "row \<in> set (tbl_admins (backend (handleCreateAdmin adminDetails now None fetched st))) \<and>
         (a_role row = ''department_admin'' \<longrightarrow>
            (\<exists>d. a_department_id row = Some d \<and> d \<noteq> []) \<and> a_event_id row = None) \<and>
         (a_role row = ''event_admin'' \<longrightarrow>
            a_event_id row = Some (selectedEvent st) \<and> selectedEvent st \<noteq> [] \<and>
            (\<forall>d. a_department_id row = Some d \<longrightarrow>
               (\<exists>ev. find (\<lambda>e. e_id e = selectedEvent st) (au_events st) = Some ev \<and>
                     e_department_id ev = d)) \<and>
            (find (\<lambda>e. e_id e = selectedEvent st) (au_events st) =
               find (\<lambda>e. e_id e = selectedEvent st) (tbl_events (backend st)) \<longrightarrow>
             (\<forall>d. a_department_id row = Some d \<longrightarrow>
                (\<exists>ev. find (\<lambda>e. e_id e = selectedEvent st) (tbl_events (backend st)) = Some ev \<and>
                      e_department_id ev = d)))) \<and>
         (a_role row = ''main_admin'' \<longrightarrow> a_department_id row = None \<and> a_event_id row = None)"
proof -
  have "row \<in> set (tbl_admins (backend (handleCreateAdmin adminDetails now None fetched st)))"
    by (simp add: handleCreateAdmin_written [OF assms] upsert_admin_member)
  with adminData_of_scoped [OF assms] show ?thesis by auto
qed

text \<open>
  C7 as stated fails on "equals the department_id of the assigned event": the main admin
  makes user \<open>U9\<close> the event admin of \<open>E1\<close> from a view that loaded \<open>E1\<close> in department
  \<open>D1\<close>, while the stored \<open>E1\<close> is in \<open>D2\<close>; the row is written with department \<open>D1\<close>.
\<close>

theorem written_admin_row_scoped_counterexample:
  "map (\<lambda>e. (e_id e, e_department_id e)) (tbl_events (backend ex_stale_admins_view)) =
     [(''E1'', ''D2'')] \<and>
   tbl_admins (backend (handleCreateAdmin (Some ex_main_admin) ''2025-04-03'' None (Inr [])
                          ex_stale_admins_view)) =
     tbl_admins (backend ex_stale_admins_view) @
       [\<lparr>a_id = ''U9'', a_username = ''new@example.org'', a_role = ''event_admin'',
         a_department_id = Some ''D1'', a_event_id = Some ''E1'',
         a_created_at = ''2025-04-03'', a_updated_at = ''2025-04-03''\<rparr>]"
proof -
  have built: "adminData_of (Some ex_main_admin) ''2025-04-03'' ex_stale_admins_view =
     Inr \<lparr>a_id = ''U9'', a_username = ''new@example.org'', a_role = ''event_admin'',
          a_department_id = Some ''D1'', a_event_id = Some ''E1'',
          a_created_at = ''2025-04-03'', a_updated_at = ''2025-04-03''\<rparr>"
    by (simp add: adminData_of_def allowedRoles_def role_of_def ex_main_admin_def
        ex_stale_admins_view_def ex_event_def)
  have stored: "map (\<lambda>e. (e_id e, e_department_id e)) (tbl_events (backend ex_stale_admins_view)) =
     [(''E1'', ''D2'')]"
    by (simp add: ex_stale_admins_view_def ex_backend_def ex_event_def)
  have admins: "tbl_admins (backend ex_stale_admins_view) =
      [ex_main_admin, ex_department_admin, ex_event_admin]"
    by (simp add: ex_stale_admins_view_def ex_backend_def)
  have "tbl_admins (backend (handleCreateAdmin (Some ex_main_admin) ''2025-04-03'' None (Inr [])
                          ex_stale_admins_view)) =
     upsert_admin \<lparr>a_id = ''U9'', a_username = ''new@example.org'', a_role = ''event_admin'',
         a_department_id = Some ''D1'', a_event_id = Some ''E1'',
         a_created_at = ''2025-04-03'', a_updated_at = ''2025-04-03''\<rparr>
       (tbl_admins (backend ex_stale_admins_view))"
    by (simp only: handleCreateAdmin_written [OF built]) simp
  also have "\<dots> = tbl_admins (backend ex_stale_admins_view) @
       [\<lparr>a_id = ''U9'', a_username = ''new@example.org'', a_role = ''event_admin'',
         a_department_id = Some ''D1'', a_event_id = Some ''E1'',
         a_created_at = ''2025-04-03'', a_updated_at = ''2025-04-03''\<rparr>]"
    by (simp add: admins upsert_admin_def ex_main_admin_def ex_department_admin_def
        ex_event_admin_def)
  finally show ?thesis using stored by simp
qed

text \<open>
  The department admin of \<open>D1\<close> makes user \<open>U9\<close> the event admin of \<open>E1\<close>, from a view
  whose event list agrees with the events table.
\<close>

theorem written_admin_row_scoped_witness:
  "adminData_of (Some ex_department_admin) ''2025-04-03'' ex_admins_view =
     Inr \<lparr>a_id = ''U9'', a_username = ''new@example.org'', a_role = ''event_admin'',
          a_department_id = Some ''D1'', a_event_id = Some ''E1'',
          a_created_at = ''2025-04-03'', a_updated_at = ''2025-04-03''\<rparr> \<and>
   \<lparr>a_id = ''U9'', a_username = ''new@example.org'', a_role = ''event_admin'',
    a_department_id = Some ''D1'', a_event_id = Some ''E1'',
    a_created_at = ''2025-04-03'', a_updated_at = ''2025-04-03''\<rparr>
     \<in> set (tbl_admins (backend (handleCreateAdmin (Some ex_department_admin) ''2025-04-03'' None
                                   (Inr []) ex_admins_view))) \<and>
   find (\<lambda>e. e_id e = ''E1'') (au_events ex_admins_view) = Some ex_event \<and>
   find (\<lambda>e. e_id e = ''E1'') (tbl_events (backend ex_admins_view)) = Some ex_event \<and>
   e_department_id ex_event = ''D1''"
proof -
  have built: "adminData_of (Some ex_department_admin) ''2025-04-03'' ex_admins_view =
     Inr \<lparr>a_id = ''U9'', a_username = ''new@example.org'', a_role = ''event_admin'',
          a_department_id = Some ''D1'', a_event_id = Some ''E1'',
          a_created_at = ''2025-04-03'', a_updated_at = ''2025-04-03''\<rparr>"
    by (simp add: adminData_of_def allowedRoles_def role_of_def ex_department_admin_def
        ex_admins_view_def ex_event_def)
  have ev: "find (\<lambda>e. e_id e = ''E1'') (au_events ex_admins_view) = Some ex_event"
    "find (\<lambda>e. e_id e = ''E1'') (tbl_events (backend ex_admins_view)) = Some ex_event"
    "e_department_id ex_event = ''D1''"
    by (simp_all add: ex_admins_view_def ex_backend_def ex_event_def)
  from written_admin_row_scoped [OF built, of "Inr []"] built ev show ?thesis by blast
qed

section \<open>The live counter\<close>

text \<open>
  C10. After \<open>fetchStats\<close>, when the count query is answered, the displayed count is the
  number of stored registrations whose payment status is exactly Verified; a row with any
  other status, Pending or Rejected among them, does not change it.
\<close>

theorem live_counter_counts_verified:
  "registrationCount (fetchStats None st) =
     Some (length (filter (\<lambda>row. r_payment_status row = ''Verified'')
                     (tbl_registrations (backend st)))) \<and>
   (r_payment_status row \<noteq> ''Verified'' \<longrightarrow>
      registrationCount
        (fetchStats None
           (st\<lparr>backend := (backend st)\<lparr>tbl_registrations :=
                  tbl_registrations (backend st) @ [row]\<rparr>\<rparr>)) =
      registrationCount (fetchStats None st))"
  by (simp add: fetchStats_def count_payment_status_def or_zero_def)

text \<open>Of a pending, a verified and a rejected registration, one is counted.\<close>

theorem live_counter_counts_verified_witness:
  "map r_payment_status (tbl_registrations (backend ex_live_counter)) =
     [''Pending'', ''Verified'', ''Rejected''] \<and>
   registrationCount (fetchStats None ex_live_counter) = Some 1 \<and>
   registrationCount
     (fetchStats None
        (ex_live_counter\<lparr>backend := (backend ex_live_counter)\<lparr>tbl_registrations :=
           tbl_registrations (backend ex_live_counter) @ [ex_row]\<rparr>\<rparr>)) = Some 1"
proof -
  have rows: "map r_payment_status (tbl_registrations (backend ex_live_counter)) =
     [''Pending'', ''Verified'', ''Rejected'']"
    by (simp add: ex_live_counter_def ex_row_def)
  have pending: "r_payment_status ex_row \<noteq> ''Verified''"
    by (simp add: ex_row_def)
  note inst = live_counter_counts_verified [of ex_live_counter ex_row]
  have "length (filter (\<lambda>row. r_payment_status row = ''Verified'')
                  (tbl_registrations (backend ex_live_counter))) = 1"
    by (simp add: ex_live_counter_def ex_row_def)
  with inst have one: "registrationCount (fetchStats None ex_live_counter) = Some 1"
    by simp
  from inst pending one have "registrationCount
     (fetchStats None
        (ex_live_counter\<lparr>backend := (backend ex_live_counter)\<lparr>tbl_registrations :=
           tbl_registrations (backend ex_live_counter) @ [ex_row]\<rparr>\<rparr>)) = Some 1"
    by simp
  with rows one show ?thesis by blast
qed

end
